theory Spec2Isabelle
  imports Complex_Main "HOL-Library.AList" "HOL-Library.Multiset"
begin

section \<open>Common values\<close>

text \<open>
  Both programs of the repository, the training script \<^verbatim>\<open>train_model.py\<close> and the Flask
  server \<^verbatim>\<open>app.py\<close>, exchange one file, \<^verbatim>\<open>metrics.json\<close>. A JSON value is modelled
  as a datatype; a Python \<^verbatim>\<open>dict\<close> is an association list with unique keys that keeps
  insertion order (\<open>AList.update\<close> overwrites in place or appends, as assignment to a
  dict key does). Python floats are idealised as real numbers.
\<close>

datatype json =
    JNull
  | JBool bool
  | JNum real
  | JStr string
  | JArr "json list"
  | JObj "(string \<times> json) list"

text \<open>
  A raised exception or a call to \<^verbatim>\<open>sys.exit\<close> is a value: \<open>Raised kind message\<close> for an
  exception of class \<open>kind\<close>, \<open>Exit n\<close> for \<^verbatim>\<open>sys.exit(n)\<close>.
\<close>

datatype error = Raised string string | Exit nat

subsection \<open>Python's \<^verbatim>\<open>round(x, n)\<close>\<close>

text \<open>
  \<^verbatim>\<open>round(x, n)\<close> rounds to the nearest multiple of \<open>10\<^sup>-\<^sup>n\<close>, a tie going to the even
  neighbour.
\<close>

definition round_half_even :: "real \<Rightarrow> int" where
  "round_half_even x =
     (let f = \<lfloor>x\<rfloor>; d = x - of_int f
      in if d < 1 / 2 then f
         else if 1 / 2 < d then f + 1
         else if even f then f else f + 1)"

definition py_round :: "real \<Rightarrow> nat \<Rightarrow> real" where
  "py_round x n = of_int (round_half_even (x * 10 ^ n)) / 10 ^ n"

section \<open>The training script\<close>

subsection \<open>Fitted pipelines\<close>

text \<open>
  What the script reads from a fitted pipeline \<^verbatim>\<open>model\<close>:
  \<^item> \<^verbatim>\<open>model.named_steps["pre"].transformers_\<close>, a list of triples (name, transformer,
    columns). Of a transformer only its class matters (\<^verbatim>\<open>isinstance(encoder,
    OneHotEncoder)\<close>) and, for a one-hot encoder, what \<^verbatim>\<open>get_feature_names_out(cols)\<close>
    returns or raises;
  \<^item> of the classifier \<^verbatim>\<open>model.named_steps["clf"]\<close>, the attributes \<^verbatim>\<open>coef_\<close> (a matrix)
    and \<^verbatim>\<open>feature_importances_\<close> (a vector), each present or absent (\<^verbatim>\<open>hasattr\<close>).
\<close>

datatype transformer =
    OneHotEncoder "string list \<Rightarrow> error + string list"
  | OtherTransformer

record classifier =
  coef :: "real list list option"
  feature_importances :: "real list option"

record pipeline =
  transformers :: "(string \<times> transformer \<times> string list) list"
  clf :: classifier

text \<open>
  Lines 124 to 142 of the script (building the pipeline, the grid search, the fit, the
  predictions on the held-out rows, \<^verbatim>\<open>roc_auc_score\<close> and \<^verbatim>\<open>accuracy_score\<close>) are library
  calls. Their outcome for one family is an \<open>evaluation\<close>, or the exception that ends the
  script (nothing in the loop catches it).
\<close>

record evaluation =
  fitted :: pipeline
  auc :: real
  acc :: real

type_synonym fit_eval = "string \<Rightarrow> error + evaluation"

subsection \<open>\<^verbatim>\<open>get_feature_names\<close>\<close>

fun get_feature_names_loop ::
  "(string \<times> transformer \<times> string list) list \<Rightarrow> string list \<Rightarrow> error + string list" where
  "get_feature_names_loop [] feature_names = Inr feature_names"
| "get_feature_names_loop ((name, encoder, cols) # rest) feature_names =
     (if name = ''num'' then get_feature_names_loop rest (feature_names @ cols)
      else if name = ''cat'' then
        (case encoder of
           OneHotEncoder get_feature_names_out \<Rightarrow>
             (case get_feature_names_out cols of
                Inl e \<Rightarrow> Inl e
              | Inr names \<Rightarrow> get_feature_names_loop rest (feature_names @ names))
         | OtherTransformer \<Rightarrow> get_feature_names_loop rest feature_names)
      else get_feature_names_loop rest feature_names)"

definition get_feature_names ::
  "(string \<times> transformer \<times> string list) list \<Rightarrow> error + string list" where
  "get_feature_names preprocessor_transformers = get_feature_names_loop preprocessor_transformers []"

subsection \<open>Feature importance of one family (lines 144 to 166)\<close>

text \<open>
  \<^verbatim>\<open>importance\<close>: the absolute values of the first row of \<^verbatim>\<open>coef_\<close> when the classifier
  has that attribute (an empty matrix raises \<^verbatim>\<open>IndexError\<close>), else
  \<^verbatim>\<open>feature_importances_\<close> when it has that one, else \<^verbatim>\<open>None\<close>.
\<close>

definition importance_of :: "classifier \<Rightarrow> error + real list option" where
  "importance_of c =
     (case coef c of
        Some rows \<Rightarrow>
          (case rows of
             [] \<Rightarrow> Inl (Raised ''IndexError'' ''index 0 is out of bounds'')
           | row # _ \<Rightarrow> Inr (Some (map abs row)))
      | None \<Rightarrow>
          (case feature_importances c of
             Some imp \<Rightarrow> Inr (Some imp)
           | None \<Rightarrow> Inr None))"

text \<open>
  \<^verbatim>\<open>sorted(zip(feature_names, importance), key=lambda x: -abs(x[1]))[:20]\<close>: \<^verbatim>\<open>sorted\<close>
  is stable, as \<open>sort_key\<close> is.
\<close>

definition top20 :: "(string \<times> real) list \<Rightarrow> (string \<times> real) list" where
  "top20 pairs = take 20 (sort_key (\<lambda>x. - \<bar>snd x\<bar>) pairs)"

text \<open>
  The dict comprehension \<^verbatim>\<open>{fname: round(float(val), 4) for fname, val in ...}\<close> inserts
  the pairs from left to right.
\<close>

definition rounded_dict :: "(string \<times> real) list \<Rightarrow> (string \<times> real) list" where
  "rounded_dict pairs = foldl (\<lambda>d (fname, val). AList.update fname (py_round val 4) d) [] pairs"

text \<open>The body of the \<^verbatim>\<open>try\<close> block; \<open>Inl\<close> is the exception the \<^verbatim>\<open>except\<close> clause catches.\<close>

definition extract_feature_importance :: "pipeline \<Rightarrow> error + (string \<times> real) list" where
  "extract_feature_importance m =
     (case get_feature_names (transformers m) of
        Inl e \<Rightarrow> Inl e
      | Inr feature_names \<Rightarrow>
          (case importance_of (clf m) of
             Inl e \<Rightarrow> Inl e
           | Inr None \<Rightarrow> Inr []
           | Inr (Some importance) \<Rightarrow> Inr (rounded_dict (top20 (zip feature_names importance)))))"

text \<open>
  \<^verbatim>\<open>feature_importance = {}\<close> before the \<^verbatim>\<open>try\<close>; the \<^verbatim>\<open>except\<close> clause only prints, so
  after an exception the mapping is still empty.
\<close>

definition feature_importance_of :: "pipeline \<Rightarrow> (string \<times> real) list" where
  "feature_importance_of m =
     (case extract_feature_importance m of Inl e \<Rightarrow> [] | Inr d \<Rightarrow> d)"

subsection \<open>The loop over the families (lines 97 to 178)\<close>

record train_state =
  metrics :: "(string \<times> json) list"
  best_model :: "pipeline option"
  best_model_name :: "string option"
  best_auc :: real

definition init_train_state :: train_state where
  "init_train_state =
     \<lparr>metrics = [], best_model = None, best_model_name = None, best_auc = - 1\<rparr>"

definition metrics_entry :: "evaluation \<Rightarrow> json" where
  "metrics_entry e =
     JObj [(''auc'', JNum (py_round (auc e) 3)),
           (''accuracy'', JNum (py_round (acc e) 3)),
           (''feature_importance'',
              JObj (map (\<lambda>(fname, val). (fname, JNum val)) (feature_importance_of (fitted e))))]"

text \<open>Lines 144 to 178 for one family, once it has been fitted and scored.\<close>

definition family_step :: "string \<Rightarrow> evaluation \<Rightarrow> train_state \<Rightarrow> train_state" where
  "family_step name e s =
     (let s' = s\<lparr>metrics := AList.update name (metrics_entry e) (metrics s)\<rparr>
      in if auc e > best_auc s'
         then s'\<lparr>best_auc := auc e, best_model := Some (fitted e), best_model_name := Some name\<rparr>
         else s')"

fun train_loop :: "fit_eval \<Rightarrow> string list \<Rightarrow> train_state \<Rightarrow> error + train_state" where
  "train_loop fe [] s = Inr s"
| "train_loop fe (name # names) s =
     (case fe name of
        Inl err \<Rightarrow> Inl err
      | Inr e \<Rightarrow> train_loop fe names (family_step name e s))"

text \<open>The keys of the dict \<^verbatim>\<open>models\<close>, in insertion order.\<close>

definition models_keys :: "string list" where
  "models_keys = [''Logistic Regression'', ''Random Forest'', ''XGBoost'']"

text \<open>
  Section 8 of the script. The result is the pair of files written: the pipeline dumped to
  \<^verbatim>\<open>model.pkl\<close> and the object dumped to \<^verbatim>\<open>metrics.json\<close>.
\<close>

definition save_best :: "train_state \<Rightarrow> error + (pipeline \<times> json)" where
  "save_best s =
     (case best_model s of
        None \<Rightarrow> Inl (Exit 1)
      | Some m \<Rightarrow>
          Inr (m, JObj (AList.update ''current_model''
                          (case best_model_name s of None \<Rightarrow> JNull | Some n \<Rightarrow> JStr n)
                          (metrics s))))"

text \<open>
  The whole script. Before the loop it looks for the data set and exits with status 1 when
  the file is absent; loading, cleaning and splitting it (lines 33 to 49) are library calls
  that return or raise, and what they return only feeds the fits. So the data set is
  given as absent (\<open>None\<close>), as the exception raised while preparing it, or as prepared.
\<close>

definition trainer :: "(error + unit) option \<Rightarrow> fit_eval \<Rightarrow> error + (pipeline \<times> json)" where
  "trainer dataset fe =
     (case dataset of
        None \<Rightarrow> Inl (Exit 1)
      | Some (Inl err) \<Rightarrow> Inl err
      | Some (Inr prepared) \<Rightarrow>
          (case train_loop fe models_keys init_train_state of
             Inl err \<Rightarrow> Inl err
           | Inr s \<Rightarrow> save_best s))"

section \<open>The server\<close>

subsection \<open>Data frames\<close>

text \<open>
  A pandas data frame is modelled by the number of its rows and by its columns, in order:
  a label and the cells below it, as many as the frame has rows, the labels distinct. A
  cell is a Python value, written as a JSON value: a number, a string, a boolean, \<open>JNull\<close>
  for a missing value (\<^verbatim>\<open>NaN\<close>), or any other object.
\<close>

record frame =
  nrows :: nat
  columns :: "(string \<times> json list) list"

text \<open>\<^verbatim>\<open>df.empty\<close>: one of the two axes has length 0.\<close>

definition empty_frame :: "frame \<Rightarrow> bool" where
  "empty_frame d = (columns d = [] \<or> nrows d = 0)"

text \<open>\<^verbatim>\<open>df[label]\<close> raises \<^verbatim>\<open>KeyError\<close> for a label the frame does not have.\<close>

definition getitem :: "frame \<Rightarrow> string \<Rightarrow> error + json list" where
  "getitem d label =
     (case map_of (columns d) label of
        None \<Rightarrow> Inl (Raised ''KeyError'' label)
      | Some cells \<Rightarrow> Inr cells)"

text \<open>
  \<^verbatim>\<open>df[label] = cells\<close> replaces the column where it stands or appends a new one; a list
  of the wrong length raises \<^verbatim>\<open>ValueError\<close>.
\<close>

definition setitem :: "frame \<Rightarrow> string \<Rightarrow> json list \<Rightarrow> frame" where
  "setitem d label cells = d\<lparr>columns := AList.update label cells (columns d)\<rparr>"

definition setitem_list :: "frame \<Rightarrow> string \<Rightarrow> json list \<Rightarrow> error + frame" where
  "setitem_list d label cells =
     (if length cells = nrows d then Inr (setitem d label cells)
      else Inl (Raised ''ValueError'' ''Length of values does not match length of index''))"

text \<open>
  \<^verbatim>\<open>df.columns.str.strip()\<close>. The white space of \<^verbatim>\<open>str.strip\<close> is modelled for ASCII:
  the characters 9 to 13 and 28 to 32. A file in which two labels differ by white space
  only, so that they collide once stripped, is outside the model.
\<close>

definition is_space :: "char \<Rightarrow> bool" where
  "is_space c = (let n = (of_char c :: nat) in (9 \<le> n \<and> n \<le> 13) \<or> (28 \<le> n \<and> n \<le> 32))"

definition strip :: "string \<Rightarrow> string" where
  "strip s = rev (dropWhile is_space (rev (dropWhile is_space s)))"

definition strip_columns :: "frame \<Rightarrow> frame" where
  "strip_columns d = d\<lparr>columns := map (\<lambda>(label, cells). (strip label, cells)) (columns d)\<rparr>"

text \<open>\<^verbatim>\<open>df.to_dict(orient="records")\<close>: one dict per row.\<close>

definition to_dict_records :: "frame \<Rightarrow> json list" where
  "to_dict_records d =
     map (\<lambda>i. JObj (map (\<lambda>(label, cells). (label, cells ! i)) (columns d))) [0..<nrows d]"

text \<open>
  \<^verbatim>\<open>pd.DataFrame([data])\<close> for a dict \<^verbatim>\<open>data\<close>: one row, the dict's keys as labels.
  Request bodies that are JSON but no object are outside the model.
\<close>

definition DataFrame1 :: "(string \<times> json) list \<Rightarrow> frame" where
  "DataFrame1 data = \<lparr>nrows = 1, columns = map (\<lambda>(k, v). (k, [v])) data\<rparr>"

text \<open>
  \<^verbatim>\<open>series.apply(f)\<close> calls \<open>f\<close> on the cells from the top and stops at the first
  exception.
\<close>

fun apply_series :: "(json \<Rightarrow> error + json) \<Rightarrow> json list \<Rightarrow> error + json list" where
  "apply_series f [] = Inr []"
| "apply_series f (c # cs) =
     (case f c of
        Inl e \<Rightarrow> Inl e
      | Inr v \<Rightarrow> (case apply_series f cs of Inl e \<Rightarrow> Inl e | Inr vs \<Rightarrow> Inr (v # vs)))"

text \<open>
  \<^verbatim>\<open>df.groupby(by)[col].mean().to_dict()\<close>. Rows whose key is missing belong to no group;
  the mean of a group skips missing values and is missing when nothing is left; a column
  that holds anything but numbers, booleans and missing values cannot be averaged. The
  groups are listed in the order of \<open>remdups\<close>; pandas sorts them, an order that no
  statement below depends on.
\<close>

definition to_number :: "json \<Rightarrow> error + real option" where
  "to_number v =
     (case v of
        JNum x \<Rightarrow> Inr (Some x)
      | JBool b \<Rightarrow> Inr (Some (if b then 1 else 0))
      | JNull \<Rightarrow> Inr None
      | _ \<Rightarrow> Inl (Raised ''TypeError'' ''agg function failed [how->mean,dtype->object]''))"

fun to_numbers :: "json list \<Rightarrow> error + real option list" where
  "to_numbers [] = Inr []"
| "to_numbers (v # vs) =
     (case to_number v of
        Inl e \<Rightarrow> Inl e
      | Inr x \<Rightarrow> (case to_numbers vs of Inl e \<Rightarrow> Inl e | Inr xs \<Rightarrow> Inr (x # xs)))"

definition mean_skipna :: "real option list \<Rightarrow> json" where
  "mean_skipna xs =
     (let present = List.map_filter (\<lambda>x. x) xs
      in if present = [] then JNull else JNum (sum_list present / real (length present)))"

definition group_keys :: "json list \<Rightarrow> json list" where
  "group_keys ks = remdups (filter (\<lambda>k. k \<noteq> JNull) ks)"

definition group_of :: "json list \<Rightarrow> 'a list \<Rightarrow> json \<Rightarrow> 'a list" where
  "group_of ks vals k = map snd (filter (\<lambda>(k', v). k' = k) (zip ks vals))"

definition groupby_mean :: "frame \<Rightarrow> string \<Rightarrow> string \<Rightarrow> error + (json \<times> json) list" where
  "groupby_mean d by col =
     (case getitem d by of
        Inl e \<Rightarrow> Inl e
      | Inr ks \<Rightarrow>
          (case getitem d col of
             Inl e \<Rightarrow> Inl e
           | Inr cells \<Rightarrow>
               (case to_numbers cells of
                  Inl e \<Rightarrow> Inl e
                | Inr vals \<Rightarrow> Inr (map (\<lambda>k. (k, mean_skipna (group_of ks vals k))) (group_keys ks)))))"

subsection \<open>The loaded model\<close>

text \<open>
  The pipeline unpickled from \<^verbatim>\<open>model.pkl\<close> and the SHAP library are third-party code.
  The server uses them through these calls, each of which returns or raises:
  \<^item> \<^verbatim>\<open>model.predict(df)\<close>, the labels, one per row;
  \<^item> \<^verbatim>\<open>model.predict_proba(df)\<close>, one row of class probabilities per row;
  \<^item> \<^verbatim>\<open>model.named_steps["pre"].transform(df)\<close>;
  \<^item> \<^verbatim>\<open>shap.Explainer(clf, X)(X)\<close>, on whose result the server evaluates
    \<^verbatim>\<open>values[0].tolist()\<close>, \<^verbatim>\<open>float(base_values[0])\<close> and \<^verbatim>\<open>abs.mean(0).tolist()\<close>;
  \<^item> \<^verbatim>\<open>model.named_steps["pre"].get_feature_names_out()\<close>.
\<close>

record shap_values =
  values0 :: "error + json"
  base_value0 :: "error + real"
  abs_mean0 :: "error + json list"

record served_model =
  predict_labels :: "frame \<Rightarrow> error + int list"
  predict_proba :: "frame \<Rightarrow> error + real list list"
  pre_transform :: "frame \<Rightarrow> error + real list list"
  shap_explain :: "real list list \<Rightarrow> error + shap_values"
  pre_get_feature_names_out :: "error + string list"

subsection \<open>Files and start-up (lines 15 to 40)\<close>

text \<open>
  Each of the three files is absent (\<open>None\<close>) or present; a present file is given by what
  loading it returns or raises (\<^verbatim>\<open>joblib.load\<close>, \<^verbatim>\<open>pd.read_csv\<close>, \<^verbatim>\<open>json.load\<close>).
\<close>

record files =
  model_file :: "(error + served_model) option"
  data_file :: "(error + frame) option"
  metrics_file :: "(error + json) option"

text \<open>The two module globals.\<close>

record server =
  model :: served_model
  df :: frame

text \<open>\<^verbatim>\<open>series.map({"Yes": 1, "No": 0})\<close>: a value that is not a key becomes missing.\<close>

definition churn_map :: "json \<Rightarrow> json" where
  "churn_map v = (if v = JStr ''Yes'' then JNum 1 else if v = JStr ''No'' then JNum 0 else JNull)"

text \<open>The messages of the two start-up errors begin with U+274C, here in UTF-8.\<close>

definition cross_mark :: string where
  "cross_mark = [CHR 0xE2, CHR 0x9D, CHR 0x8C]"

definition startup :: "files \<Rightarrow> error + server" where
  "startup fs =
     (case model_file fs of
        None \<Rightarrow> Inl (Raised ''FileNotFoundError''
                       (cross_mark @ '' model.pkl not found. Please run train_model.py first.''))
      | Some (Inl e) \<Rightarrow> Inl e
      | Some (Inr m) \<Rightarrow>
          (case data_file fs of
             None \<Rightarrow> Inl (Raised ''FileNotFoundError''
                            (cross_mark @ '' Telco_Cust_Churn.csv not found. '' @
                             ''Please place Telco_Cust_Churn.csv in backend/.''))
           | Some (Inl e) \<Rightarrow> Inl e
           | Some (Inr d) \<Rightarrow>
               (let d' = strip_columns d
                in case getitem d' ''Churn'' of
                     Inl e \<Rightarrow> Inl e
                   | Inr churn \<Rightarrow> Inr \<lparr>model = m, df = setitem d' ''Churn'' (map churn_map churn)\<rparr>)))"

subsection \<open>Reading the metrics report\<close>

text \<open>\<^verbatim>\<open>d.get(key, default)\<close>: only a dict has the method.\<close>

definition dict_get :: "json \<Rightarrow> string \<Rightarrow> json \<Rightarrow> error + json" where
  "dict_get j key dflt =
     (case j of
        JObj d \<Rightarrow> Inr (case map_of d key of None \<Rightarrow> dflt | Some v \<Rightarrow> v)
      | _ \<Rightarrow> Inl (Raised ''AttributeError'' ''object has no attribute get''))"

text \<open>
  The block shared by \<^verbatim>\<open>health\<close> and \<^verbatim>\<open>dashboard\<close>: the pair (\<^verbatim>\<open>metrics\<close>,
  \<^verbatim>\<open>active_model\<close>), which stays (\<^verbatim>\<open>{}\<close>, \<^verbatim>\<open>None\<close>) when the file is absent.
\<close>

definition load_metrics :: "files \<Rightarrow> error + (json \<times> json)" where
  "load_metrics fs =
     (case metrics_file fs of
        None \<Rightarrow> Inr (JObj [], JNull)
      | Some (Inl e) \<Rightarrow> Inl e
      | Some (Inr report) \<Rightarrow>
          (case dict_get report ''current_model'' JNull of
             Inl e \<Rightarrow> Inl e
           | Inr current \<Rightarrow> Inr (report, current)))"

subsection \<open>Responses\<close>

text \<open>
  A handler returns a status and the value given to \<^verbatim>\<open>jsonify\<close>, or lets an exception
  escape (\<open>Inl\<close>; Flask answers 500). Every handler is written in state-passing style: it
  takes the files and the globals and returns the globals after the request.
  \<^verbatim>\<open>str(e)\<close> of an exception is its message.
\<close>

definition str_of :: "error \<Rightarrow> string" where
  "str_of e = (case e of Raised kind msg \<Rightarrow> msg | Exit n \<Rightarrow> [])"

definition error_400 :: "error \<Rightarrow> nat \<times> json" where
  "error_400 e = (400, JObj [(''error'', JStr (str_of e))])"

subsection \<open>\<^verbatim>\<open>/api/health\<close>\<close>

definition health :: "files \<Rightarrow> server \<Rightarrow> (error + nat \<times> json) \<times> server" where
  "health fs s =
     (case load_metrics fs of
        Inl e \<Rightarrow> (Inl e, s)
      | Inr (report, current) \<Rightarrow>
          (Inr (200, JObj [(''status'', JStr ''ok''),
                           (''model_loaded'', JBool True),
                           (''active_model'', current)]), s))"

subsection \<open>\<^verbatim>\<open>/api/predict\<close>\<close>

text \<open>
  \<^verbatim>\<open>request.json\<close> itself raises for a body that is not JSON, inside the \<^verbatim>\<open>try\<close>; the
  body is given as what \<^verbatim>\<open>request.json\<close> returns or raises.
\<close>

definition predict :: "error + (string \<times> json) list \<Rightarrow> server \<Rightarrow> (nat \<times> json) \<times> server" where
  "predict body s =
     (case body of
        Inl e \<Rightarrow> (error_400 e, s)
      | Inr data \<Rightarrow>
          (let df_input = DataFrame1 data
           in case predict_labels (model s) df_input of
                Inl e \<Rightarrow> (error_400 e, s)
              | Inr [] \<Rightarrow> (error_400 (Raised ''IndexError'' ''index 0 is out of bounds''), s)
              | Inr (pred # _) \<Rightarrow>
                  (case predict_proba (model s) df_input of
                     Inl e \<Rightarrow> (error_400 e, s)
                   | Inr [] \<Rightarrow> (error_400 (Raised ''IndexError'' ''index 0 is out of bounds''), s)
                   | Inr (row # _) \<Rightarrow>
                       (if length row < 2
                        then (error_400 (Raised ''IndexError'' ''index 1 is out of bounds''), s)
                        else ((200, JObj [(''prediction'', JNum (of_int pred)),
                                          (''probability'', JNum (row ! 1))]), s)))))"

subsection \<open>\<^verbatim>\<open>/api/dashboard\<close>\<close>

text \<open>
  A comparison \<^verbatim>\<open>t <= c\<close> of a cell with a number: false for \<^verbatim>\<open>NaN\<close>, a \<^verbatim>\<open>TypeError\<close>
  for a string or another object.
\<close>

definition py_le :: "json \<Rightarrow> real \<Rightarrow> error + bool" where
  "py_le t c =
     (case t of
        JNum x \<Rightarrow> Inr (x \<le> c)
      | JBool b \<Rightarrow> Inr ((if b then 1 else 0) \<le> c)
      | JNull \<Rightarrow> Inr False
      | _ \<Rightarrow> Inl (Raised ''TypeError'' ''<= not supported between these instances''))"

definition tenure_bucket :: "json \<Rightarrow> error + json" where
  "tenure_bucket t =
     (case py_le t 12 of
        Inl e \<Rightarrow> Inl e
      | Inr True \<Rightarrow> Inr (JStr ''0-12'')
      | Inr False \<Rightarrow>
          (case py_le t 24 of
             Inl e \<Rightarrow> Inl e
           | Inr True \<Rightarrow> Inr (JStr ''13-24'')
           | Inr False \<Rightarrow> Inr (JStr ''25+'')))"

definition monthly_bucket :: "json \<Rightarrow> error + json" where
  "monthly_bucket m =
     (case py_le m 50 of
        Inl e \<Rightarrow> Inl e
      | Inr True \<Rightarrow> Inr (JStr ''0-50'')
      | Inr False \<Rightarrow>
          (case py_le m 100 of
             Inl e \<Rightarrow> Inl e
           | Inr True \<Rightarrow> Inr (JStr ''51-100'')
           | Inr False \<Rightarrow> Inr (JStr ''101+'')))"

text \<open>
  The dict given to \<^verbatim>\<open>jsonify\<close>. The three rate dicts have the group keys as keys, which
  need not be strings, so the body is a record; its serialisation is not modelled.
\<close>

record dashboard_body =
  contract :: "(json \<times> json) list"
  tenure :: "(json \<times> json) list"
  monthly :: "(json \<times> json) list"
  report_metrics :: json
  active_model :: json

text \<open>
  The handler assigns to the global \<^verbatim>\<open>df\<close> twice; an exception leaves the assignments
  made before it in place.
\<close>

definition dashboard :: "files \<Rightarrow> server \<Rightarrow> (error + dashboard_body) \<times> server" where
  "dashboard fs s =
     (case groupby_mean (df s) ''Contract'' ''Churn'' of
        Inl e \<Rightarrow> (Inl e, s)
      | Inr contract_rates \<Rightarrow>
     (case getitem (df s) ''tenure'' of
        Inl e \<Rightarrow> (Inl e, s)
      | Inr tenure_cells \<Rightarrow>
     (case apply_series tenure_bucket tenure_cells of
        Inl e \<Rightarrow> (Inl e, s)
      | Inr tenure_buckets \<Rightarrow>
     (let s1 = s\<lparr>df := setitem (df s) ''TenureBucket'' tenure_buckets\<rparr>
      in case groupby_mean (df s1) ''TenureBucket'' ''Churn'' of
        Inl e \<Rightarrow> (Inl e, s1)
      | Inr tenure_rates \<Rightarrow>
     (case getitem (df s1) ''MonthlyCharges'' of
        Inl e \<Rightarrow> (Inl e, s1)
      | Inr monthly_cells \<Rightarrow>
     (case apply_series monthly_bucket monthly_cells of
        Inl e \<Rightarrow> (Inl e, s1)
      | Inr monthly_buckets \<Rightarrow>
     (let s2 = s1\<lparr>df := setitem (df s1) ''MonthlyBucket'' monthly_buckets\<rparr>
      in case groupby_mean (df s2) ''MonthlyBucket'' ''Churn'' of
        Inl e \<Rightarrow> (Inl e, s2)
      | Inr monthly_rates \<Rightarrow>
     (case load_metrics fs of
        Inl e \<Rightarrow> (Inl e, s2)
      | Inr (report, current) \<Rightarrow>
          (Inr \<lparr>contract = contract_rates, tenure = tenure_rates, monthly = monthly_rates,
                report_metrics = report, active_model = current\<rparr>, s2)))))))))"

subsection \<open>\<^verbatim>\<open>/api/feature-importance\<close>\<close>

text \<open>Python's truth value of a JSON value.\<close>

definition truthy :: "json \<Rightarrow> bool" where
  "truthy v =
     (case v of
        JNull \<Rightarrow> False
      | JBool b \<Rightarrow> b
      | JNum x \<Rightarrow> x \<noteq> 0
      | JStr str \<Rightarrow> str \<noteq> []
      | JArr xs \<Rightarrow> xs \<noteq> []
      | JObj d \<Rightarrow> d \<noteq> [])"

text \<open>
  \<^verbatim>\<open>key in d\<close> followed by \<^verbatim>\<open>d[key]\<close> for a dict loaded from JSON, whose keys are strings:
  the entry when \<open>key\<close> is a string among the keys, none for another hashable value, a
  \<^verbatim>\<open>TypeError\<close> for a list or a dict.
\<close>

definition dict_find :: "(string \<times> json) list \<Rightarrow> json \<Rightarrow> error + json option" where
  "dict_find d key =
     (case key of
        JStr k \<Rightarrow> Inr (map_of d k)
      | JArr xs \<Rightarrow> Inl (Raised ''TypeError'' ''unhashable type: list'')
      | JObj kvs \<Rightarrow> Inl (Raised ''TypeError'' ''unhashable type: dict'')
      | _ \<Rightarrow> Inr None)"

definition feature_importance_body :: "json \<Rightarrow> json \<Rightarrow> nat \<times> json" where
  "feature_importance_body current importance =
     (200, JObj [(''active_model'', current), (''feature_importance'', importance)])"

definition feature_importance :: "files \<Rightarrow> server \<Rightarrow> (error + nat \<times> json) \<times> server" where
  "feature_importance fs s =
     (case metrics_file fs of
        None \<Rightarrow> (Inr (feature_importance_body JNull (JObj [])), s)
      | Some (Inl e) \<Rightarrow> (Inl e, s)
      | Some (Inr report) \<Rightarrow>
          (case report of
             JObj d \<Rightarrow>
               (let current = (case map_of d ''current_model'' of None \<Rightarrow> JNull | Some v \<Rightarrow> v)
                in if \<not> truthy current then (Inr (feature_importance_body current (JObj [])), s)
                   else case dict_find d current of
                          Inl e \<Rightarrow> (Inl e, s)
                        | Inr None \<Rightarrow> (Inr (feature_importance_body current (JObj [])), s)
                        | Inr (Some entry) \<Rightarrow>
                            (case dict_get entry ''feature_importance'' (JObj []) of
                               Inl e \<Rightarrow> (Inl e, s)
                             | Inr importance \<Rightarrow>
                                 (Inr (feature_importance_body current importance), s)))
           | _ \<Rightarrow> (Inl (Raised ''AttributeError'' ''object has no attribute get''), s)))"

subsection \<open>\<^verbatim>\<open>/api/explain\<close>\<close>

text \<open>
  The handler works on \<^verbatim>\<open>df_input\<close>, a frame of its own built from the request; the
  global \<^verbatim>\<open>df\<close> does not occur in it.
\<close>

definition explain :: "error + (string \<times> json) list \<Rightarrow> server \<Rightarrow> (nat \<times> json) \<times> server" where
  "explain body s =
     (case body of
        Inl e \<Rightarrow> (error_400 e, s)
      | Inr data \<Rightarrow>
          (let df_input = DataFrame1 data
           in case pre_transform (model s) df_input of
                Inl e \<Rightarrow> (error_400 e, s)
              | Inr X_transformed \<Rightarrow>
                  (case shap_explain (model s) X_transformed of
                     Inl e \<Rightarrow> (error_400 e, s)
                   | Inr shap_vals \<Rightarrow>
                       (case to_dict_records df_input of
                          [] \<Rightarrow> (error_400 (Raised ''IndexError'' ''list index out of range''), s)
                        | features # _ \<Rightarrow>
                            (case values0 shap_vals of
                               Inl e \<Rightarrow> (error_400 e, s)
                             | Inr vals \<Rightarrow>
                                 (case base_value0 shap_vals of
                                    Inl e \<Rightarrow> (error_400 e, s)
                                  | Inr base \<Rightarrow>
                                      ((200, JObj [(''features'', features),
                                                   (''shap_values'', vals),
                                                   (''base_value'', JNum base)]), s)))))))"

subsection \<open>\<^verbatim>\<open>/api/batch-predict\<close>\<close>

text \<open>
  An uploaded file is given by its name and by what \<^verbatim>\<open>pd.read_csv(file)\<close> returns or
  raises. The request has a file under the key \<^verbatim>\<open>file\<close> or has none.
\<close>

record upload =
  filename :: string
  read_csv :: "error + frame"

text \<open>\<^verbatim>\<open>proba[:, 1]\<close> of a matrix given by its rows.\<close>

definition column1 :: "real list list \<Rightarrow> error + real list" where
  "column1 rows =
     (if list_all (\<lambda>row. 2 \<le> length row) rows then Inr (map (\<lambda>row. row ! 1) rows)
      else Inl (Raised ''IndexError'' ''index 1 is out of bounds for axis 1''))"

text \<open>\<^verbatim>\<open>dict(zip(keys, vals))\<close>: a later pair replaces an earlier one with the same key.\<close>

definition dict_zip :: "string list \<Rightarrow> json list \<Rightarrow> (string \<times> json) list" where
  "dict_zip keys vals = foldl (\<lambda>d (k, v). AList.update k v d) [] (zip keys vals)"

text \<open>The body of the inner \<^verbatim>\<open>try\<close> block (lines 201 to 212).\<close>

definition shap_batch :: "served_model \<Rightarrow> frame \<Rightarrow> error + (string \<times> json) list" where
  "shap_batch m df_input =
     (case pre_transform m df_input of
        Inl e \<Rightarrow> Inl e
      | Inr X_transformed \<Rightarrow>
          (case shap_explain m X_transformed of
             Inl e \<Rightarrow> Inl e
           | Inr shap_vals \<Rightarrow>
               (case abs_mean0 shap_vals of
                  Inl e \<Rightarrow> Inl e
                | Inr mean_abs_shap \<Rightarrow>
                    (case pre_get_feature_names_out m of
                       Inl e \<Rightarrow> Inl e
                     | Inr feature_names \<Rightarrow> Inr (dict_zip feature_names mean_abs_shap)))))"

definition batch_predict :: "upload option \<Rightarrow> server \<Rightarrow> (nat \<times> json) \<times> server" where
  "batch_predict file_field s =
     (case file_field of
        None \<Rightarrow> ((400, JObj [(''error'', JStr ''No file uploaded'')]), s)
      | Some file \<Rightarrow>
     (case read_csv file of
        Inl e \<Rightarrow> (error_400 e, s)
      | Inr parsed \<Rightarrow>
     (let df_input = strip_columns parsed
      in if empty_frame df_input
         then ((400, JObj [(''error'', JStr ''Uploaded CSV is empty'')]), s)
         else
     (case predict_labels (model s) df_input of
        Inl e \<Rightarrow> (error_400 e, s)
      | Inr preds \<Rightarrow>
     (case predict_proba (model s) df_input of
        Inl e \<Rightarrow> (error_400 e, s)
      | Inr proba \<Rightarrow>
     (case column1 proba of
        Inl e \<Rightarrow> (error_400 e, s)
      | Inr probs \<Rightarrow>
     (case setitem_list df_input ''prediction'' (map (\<lambda>p. JNum (of_int p)) preds) of
        Inl e \<Rightarrow> (error_400 e, s)
      | Inr results1 \<Rightarrow>
     (case setitem_list results1 ''probability'' (map JNum probs) of
        Inl e \<Rightarrow> (error_400 e, s)
      | Inr results \<Rightarrow>
     (let importance = (case shap_batch (model s) df_input of Inl e \<Rightarrow> [] | Inr d \<Rightarrow> d)
      in ((200, JObj [(''predictions'', JArr (to_dict_records results)),
                      (''batch_feature_importance'', JObj importance)]), s))))))))))"

subsection \<open>Requests and reachable states\<close>

datatype request =
    Health
  | Predict "error + (string \<times> json) list"
  | Dashboard
  | FeatureImportance
  | Explain "error + (string \<times> json) list"
  | BatchPredict "upload option"

text \<open>The globals after a request has been served.\<close>

definition serve :: "files \<Rightarrow> request \<Rightarrow> server \<Rightarrow> server" where
  "serve fs r s =
     (case r of
        Health \<Rightarrow> snd (health fs s)
      | Predict body \<Rightarrow> snd (predict body s)
      | Dashboard \<Rightarrow> snd (dashboard fs s)
      | FeatureImportance \<Rightarrow> snd (feature_importance fs s)
      | Explain body \<Rightarrow> snd (explain body s)
      | BatchPredict file_field \<Rightarrow> snd (batch_predict file_field s))"

text \<open>
  The states of a running server: the files as they are now and the globals. The server
  starts from the files of that moment; afterwards it serves requests, and the files may
  change under it in any way (a training run rewrites two of them, any of them may be
  deleted).
\<close>

inductive reachable :: "files \<Rightarrow> server \<Rightarrow> bool" where
  started: "startup fs = Inr s \<Longrightarrow> reachable fs s"
| served: "reachable fs s \<Longrightarrow> reachable fs (serve fs r s)"
| files_changed: "reachable fs s \<Longrightarrow> reachable fs' s"

section \<open>Invariants of the training loop\<close>

text \<open>
  What holds of the state after the families \<open>processed\<close> have been handled: no family
  has been kept and none scored above \<open>-1\<close>, or the family kept is the first of the
  processed ones to reach their highest score.
\<close>

definition first_max :: "fit_eval \<Rightarrow> string list \<Rightarrow> train_state \<Rightarrow> bool" where
  "first_max fe processed s \<longleftrightarrow>
     (case best_model s of
        None \<Rightarrow> best_auc s = - 1 \<and> best_model_name s = None \<and>
                (\<forall>j < length processed. \<forall>e. fe (processed ! j) = Inr e \<longrightarrow> auc e \<le> - 1)
      | Some m \<Rightarrow>
          (\<exists>i < length processed. \<exists>e. fe (processed ! i) = Inr e \<and> m = fitted e \<and>
             best_model_name s = Some (processed ! i) \<and> best_auc s = auc e \<and> - 1 < auc e \<and>
             (\<forall>j < length processed. \<forall>e'. fe (processed ! j) = Inr e' \<longrightarrow> auc e' \<le> auc e) \<and>
             (\<forall>j < i. \<forall>e'. fe (processed ! j) = Inr e' \<longrightarrow> auc e' < auc e)))"

text \<open>Every processed family has its entry in the report.\<close>

definition entries_ok :: "string list \<Rightarrow> train_state \<Rightarrow> bool" where
  "entries_ok processed s \<longleftrightarrow>
     (\<forall>n \<in> set processed. \<exists>e. map_of (metrics s) n = Some (metrics_entry e))"

text \<open>Every processed family has, under its name, the entry made from its evaluation.\<close>

definition entries_recorded :: "fit_eval \<Rightarrow> string list \<Rightarrow> train_state \<Rightarrow> bool" where
  "entries_recorded fe processed s \<longleftrightarrow>
     (\<forall>n \<in> set processed. \<exists>e. fe n = Inr e \<and> map_of (metrics s) n = Some (metrics_entry e))"

section \<open>Example inputs\<close>

text \<open>
  Three fitted families. The first two tie on the score; the encoder of the third raises
  when asked for its feature names.
\<close>

definition example_lr :: pipeline where
  "example_lr =
     \<lparr>transformers =
        [(''num'', OtherTransformer, [''tenure'', ''MonthlyCharges'']),
         (''cat'', OneHotEncoder (\<lambda>cols. Inr (map (\<lambda>c. c @ ''_Yes'') cols)), [''Partner''])],
      clf = \<lparr>coef = Some [[- 1.23456, 0.5, 0.25]], feature_importances = None\<rparr>\<rparr>"

definition example_rf :: pipeline where
  "example_rf =
     \<lparr>transformers =
        [(''num'', OtherTransformer, [''tenure'', ''MonthlyCharges'']),
         (''cat'', OneHotEncoder (\<lambda>cols. Inr (map (\<lambda>c. c @ ''_Yes'') cols)), [''Partner''])],
      clf = \<lparr>coef = None, feature_importances = Some [0.5, 0.3, 0.2]\<rparr>\<rparr>"

definition example_xgb :: pipeline where
  "example_xgb =
     \<lparr>transformers =
        [(''num'', OtherTransformer, [''tenure'', ''MonthlyCharges'']),
         (''cat'', OneHotEncoder (\<lambda>cols. Inl (Raised ''NotFittedError'' ''not fitted'')), [''Partner''])],
      clf = \<lparr>coef = None, feature_importances = Some [0.6, 0.3, 0.1]\<rparr>\<rparr>"

definition example_lr_evaluation :: evaluation where
  "example_lr_evaluation = \<lparr>fitted = example_lr, auc = 0.8437, acc = 0.8043\<rparr>"

definition example_rf_evaluation :: evaluation where
  "example_rf_evaluation = \<lparr>fitted = example_rf, auc = 0.8437, acc = 0.79\<rparr>"

definition example_xgb_evaluation :: evaluation where
  "example_xgb_evaluation = \<lparr>fitted = example_xgb, auc = 0.8301, acc = 0.7857\<rparr>"

definition example_fit_eval :: fit_eval where
  "example_fit_eval name =
     (if name = ''Logistic Regression'' then Inr example_lr_evaluation
      else if name = ''Random Forest'' then Inr example_rf_evaluation
      else if name = ''XGBoost'' then Inr example_xgb_evaluation
      else Inl (Raised ''KeyError'' name))"

text \<open>The report the script writes for them.\<close>

definition example_report :: json where
  "example_report =
     JObj
      [(''Logistic Regression'',
        JObj [(''auc'', JNum 0.844), (''accuracy'', JNum 0.804),
              (''feature_importance'',
                 JObj [(''tenure'', JNum 1.2346), (''MonthlyCharges'', JNum 0.5),
                       (''Partner_Yes'', JNum 0.25)])]),
       (''Random Forest'',
        JObj [(''auc'', JNum 0.844), (''accuracy'', JNum 0.79),
              (''feature_importance'',
                 JObj [(''tenure'', JNum 0.5), (''MonthlyCharges'', JNum 0.3),
                       (''Partner_Yes'', JNum 0.2)])]),
       (''XGBoost'',
        JObj [(''auc'', JNum 0.83), (''accuracy'', JNum 0.786),
              (''feature_importance'', JObj [])]),
       (''current_model'', JStr ''Logistic Regression'')]"

text \<open>A fitted pipeline with 22 features after encoding.\<close>

definition example_wide_importances :: "real list" where
  "example_wide_importances =
     [0.01, 0.3, 0.02, 0.05, 0.04, 0.03, 0.06, 0.07, 0.08, 0.09, 0.011,
      0.012, 0.013, 0.014, 0.015, 0.016, 0.017, 0.018, 0.019, 0.0201,
      0.00004, 0.12346]"

definition example_wide_names :: "string list" where
  "example_wide_names =
     [''a'', ''b'', ''c_p'', ''c_q'', ''c_r'', ''c_s'', ''c_t'', ''d_p'', ''d_q'', ''d_r'', ''d_s'',
      ''d_t'', ''g_p'', ''g_q'', ''g_r'', ''g_s'', ''g_t'', ''h_p'', ''h_q'', ''h_r'', ''h_s'', ''h_t'']"

definition example_wide :: pipeline where
  "example_wide =
     \<lparr>transformers =
        [(''num'', OtherTransformer, [''a'', ''b'']),
         (''remainder'', OtherTransformer, [''zz'']),
         (''cat'',
          OneHotEncoder (\<lambda>cols. Inr (concat (map (\<lambda>c. map (\<lambda>v. c @ ''_'' @ v)
              [''p'', ''q'', ''r'', ''s'', ''t'']) cols))),
          [''c'', ''d'', ''g'', ''h''])],
      clf = \<lparr>coef = None, feature_importances = Some example_wide_importances\<rparr>\<rparr>"

text \<open>
  A second run, in which the bagged family is that pipeline, the mapping the script records
  for it, and the report of the run.
\<close>

definition example_wide_evaluation :: evaluation where
  "example_wide_evaluation = \<lparr>fitted = example_wide, auc = 0.8512, acc = 0.8013\<rparr>"

definition example_fit_eval_wide :: fit_eval where
  "example_fit_eval_wide name =
     (if name = ''Random Forest'' then Inr example_wide_evaluation else example_fit_eval name)"

definition example_wide_recorded :: "(string \<times> real) list" where
  "example_wide_recorded =
     [(''b'', 0.3), (''h_t'', 0.1235), (''d_r'', 0.09), (''d_q'', 0.08), (''d_p'', 0.07),
      (''c_t'', 0.06), (''c_q'', 0.05), (''c_r'', 0.04), (''c_s'', 0.03), (''h_r'', 0.0201),
      (''c_p'', 0.02), (''h_q'', 0.019), (''h_p'', 0.018), (''g_t'', 0.017), (''g_s'', 0.016),
      (''g_r'', 0.015), (''g_q'', 0.014), (''g_p'', 0.013), (''d_t'', 0.012), (''d_s'', 0.011)]"

definition example_report_wide :: json where
  "example_report_wide =
     JObj
      [(''Logistic Regression'',
        JObj [(''auc'', JNum 0.844), (''accuracy'', JNum 0.804),
              (''feature_importance'',
                 JObj [(''tenure'', JNum 1.2346), (''MonthlyCharges'', JNum 0.5),
                       (''Partner_Yes'', JNum 0.25)])]),
       (''Random Forest'',
        JObj [(''auc'', JNum (py_round (auc example_wide_evaluation) 3)),
              (''accuracy'', JNum (py_round (acc example_wide_evaluation) 3)),
              (''feature_importance'',
                 JObj (map (\<lambda>(fname, val). (fname, JNum val)) example_wide_recorded))]),
       (''XGBoost'',
        JObj [(''auc'', JNum 0.83), (''accuracy'', JNum 0.786),
              (''feature_importance'', JObj [])]),
       (''current_model'', JStr ''Random Forest'')]"

section \<open>Frames: the columns a request leaves alone\<close>

text \<open>The columns of a frame other than the two bucket columns, in order.\<close>

definition other_columns :: "frame \<Rightarrow> (string \<times> json list) list" where
  "other_columns d =
     filter (\<lambda>(label, cells). label \<noteq> ''TenureBucket'' \<and> label \<noteq> ''MonthlyBucket'') (columns d)"

text \<open>Every column has as many cells as the frame has rows.\<close>

definition wf_frame :: "frame \<Rightarrow> bool" where
  "wf_frame d = list_all (\<lambda>(label, cells). length cells = nrows d) (columns d)"

section \<open>Example inputs for the server\<close>

text \<open>A data set of four customers; two labels carry white space.\<close>

definition example_dataset :: frame where
  "example_dataset =
     \<lparr>nrows = 4,
      columns =
        [(''customerID'', [JStr ''7590-VHVEG'', JStr ''5575-GNVDE'', JStr ''3668-QPYBK'', JStr ''7795-CFOCW'']),
         ('' Contract'', [JStr ''Month-to-month'', JStr ''Two year'', JStr ''Month-to-month'', JStr ''One year'']),
         (''tenure '', [JNum 1, JNum 34, JNum 13, JNum 45]),
         (''MonthlyCharges'', [JNum 29.85, JNum 105.5, JNum 50, JNum 42.3]),
         (''Churn'', [JStr ''Yes'', JStr ''No'', JStr ''No'', JStr ''No''])]\<rparr>"

text \<open>A model that answers every call, and one whose SHAP explainer raises.\<close>

definition example_shap :: shap_values where
  "example_shap =
     \<lparr>values0 = Inr (JArr [JNum 0.1, JNum (- 0.2)]),
      base_value0 = Inr 0.4,
      abs_mean0 = Inr [JNum 0.1, JNum 0.2]\<rparr>"

definition example_model :: served_model where
  "example_model =
     \<lparr>predict_labels = (\<lambda>d. Inr (replicate (nrows d) 1)),
      predict_proba = (\<lambda>d. Inr (replicate (nrows d) [0.25, 0.75])),
      pre_transform = (\<lambda>d. Inr (replicate (nrows d) [1, 0])),
      shap_explain = (\<lambda>X. Inr example_shap),
      pre_get_feature_names_out = Inr [''num__tenure'', ''cat__Contract_Two year'']\<rparr>"

definition example_model_shap_fails :: served_model where
  "example_model_shap_fails =
     example_model\<lparr>shap_explain := (\<lambda>X. Inl (Raised ''ExplainerError'' ''model type not supported''))\<rparr>"

definition example_files :: files where
  "example_files =
     \<lparr>model_file = Some (Inr example_model),
      data_file = Some (Inr example_dataset),
      metrics_file = Some (Inr example_report)\<rparr>"

text \<open>The globals after start-up from these files.\<close>

definition example_df :: frame where
  "example_df =
     \<lparr>nrows = 4,
      columns =
        [(''customerID'', [JStr ''7590-VHVEG'', JStr ''5575-GNVDE'', JStr ''3668-QPYBK'', JStr ''7795-CFOCW'']),
         (''Contract'', [JStr ''Month-to-month'', JStr ''Two year'', JStr ''Month-to-month'', JStr ''One year'']),
         (''tenure'', [JNum 1, JNum 34, JNum 13, JNum 45]),
         (''MonthlyCharges'', [JNum 29.85, JNum 105.5, JNum 50, JNum 42.3]),
         (''Churn'', [JNum 1, JNum 0, JNum 0, JNum 0])]\<rparr>"

definition example_server :: server where
  "example_server = \<lparr>model = example_model, df = example_df\<rparr>"

text \<open>A request body for \<^verbatim>\<open>predict\<close> and \<^verbatim>\<open>explain\<close>, and two uploads.\<close>

definition example_record :: "(string \<times> json) list" where
  "example_record =
     [(''Contract'', JStr ''Two year''), (''tenure'', JNum 34), (''MonthlyCharges'', JNum 105.5)]"

definition example_batch :: frame where
  "example_batch =
     \<lparr>nrows = 2,
      columns = [('' Contract'', [JStr ''Two year'', JStr ''One year'']),
                 (''tenure'', [JNum 34, JNum 2])]\<rparr>"

definition example_upload :: upload where
  "example_upload = \<lparr>filename = ''batch.csv'', read_csv = Inr example_batch\<rparr>"

definition example_header_only :: frame where
  "example_header_only = \<lparr>nrows = 0, columns = [('' Contract'', []), (''tenure'', [])]\<rparr>"

definition example_upload_header_only :: upload where
  "example_upload_header_only = \<lparr>filename = ''empty.csv'', read_csv = Inr example_header_only\<rparr>"

text \<open>What \<^verbatim>\<open>dashboard\<close> answers in the example state, and the frame it leaves.\<close>

definition example_dashboard_body :: dashboard_body where
  "example_dashboard_body =
     \<lparr>contract = [(JStr ''Two year'', JNum 0), (JStr ''Month-to-month'', JNum (1 / 2)),
                  (JStr ''One year'', JNum 0)],
      tenure = [(JStr ''0-12'', JNum 1), (JStr ''13-24'', JNum 0), (JStr ''25+'', JNum 0)],
      monthly = [(JStr ''101+'', JNum 0), (JStr ''0-50'', JNum (1 / 3))],
      report_metrics = example_report,
      active_model = JStr ''Logistic Regression''\<rparr>"

definition example_df_after :: frame where
  "example_df_after =
     \<lparr>nrows = 4,
      columns =
        [(''customerID'', [JStr ''7590-VHVEG'', JStr ''5575-GNVDE'', JStr ''3668-QPYBK'', JStr ''7795-CFOCW'']),
         (''Contract'', [JStr ''Month-to-month'', JStr ''Two year'', JStr ''Month-to-month'', JStr ''One year'']),
         (''tenure'', [JNum 1, JNum 34, JNum 13, JNum 45]),
         (''MonthlyCharges'', [JNum 29.85, JNum 105.5, JNum 50, JNum 42.3]),
         (''Churn'', [JNum 1, JNum 0, JNum 0, JNum 0]),
         (''TenureBucket'', [JStr ''0-12'', JStr ''25+'', JStr ''13-24'', JStr ''25+'']),
         (''MonthlyBucket'', [JStr ''0-50'', JStr ''101+'', JStr ''0-50'', JStr ''0-50''])]\<rparr>"

section \<open>Properties of the training script\<close>

subsection \<open>Rounding\<close>

lemma round_half_even_close: "\<bar>of_int (round_half_even y) - y\<bar> \<le> 1 / 2"
proof -
  have "of_int \<lfloor>y\<rfloor> \<le> y" "y < of_int \<lfloor>y\<rfloor> + 1" by linarith+
  then show ?thesis
    by (auto simp: round_half_even_def Let_def)
qed

lemma py_round_close: "\<bar>py_round x n - x\<bar> \<le> 1 / (2 * 10 ^ n)"
proof -
  let ?p = "(10::real) ^ n"
  have p: "0 < ?p" by simp
  have "py_round x n - x = (of_int (round_half_even (x * ?p)) - x * ?p) / ?p"
    using p by (simp add: py_round_def field_simps)
  then have "\<bar>py_round x n - x\<bar> = \<bar>of_int (round_half_even (x * ?p)) - x * ?p\<bar> / ?p"
    using p by (simp add: abs_divide)
  also have "\<dots> \<le> (1 / 2) / ?p"
    by (rule divide_right_mono [OF round_half_even_close]) simp
  also have "\<dots> = 1 / (2 * ?p)" by simp
  finally show ?thesis .
qed

subsection \<open>Dicts built by repeated assignment\<close>

lemma set_update_subset: "set (AList.update k v al) \<subseteq> insert (k, v) (set al)"
  by (induction al) auto

lemma length_update_le: "length (AList.update k v al) \<le> Suc (length al)"
  by (induction al) auto

lemma foldl_update_keys:
  "fst ` set (foldl (\<lambda>d (k, v). AList.update k (g v) d) d0 ps) = fst ` set d0 \<union> fst ` set ps"
proof (induction ps arbitrary: d0)
  case Nil
  then show ?case by simp
next
  case (Cons p ps)
  obtain k v where p: "p = (k, v)" by (cases p)
  have "fst ` set (foldl (\<lambda>d (k, v). AList.update k (g v) d) (AList.update k (g v) d0) ps)
        = fst ` set (AList.update k (g v) d0) \<union> fst ` set ps"
    by (rule Cons.IH)
  also have "\<dots> = ({k} \<union> fst ` set d0) \<union> fst ` set ps"
    by (simp only: dom_update)
  finally show ?case by (simp add: p)
qed

lemma foldl_update_length:
  "length (foldl (\<lambda>d (k, v). AList.update k (g v) d) d0 ps) \<le> length d0 + length ps"
proof (induction ps arbitrary: d0)
  case Nil
  then show ?case by simp
next
  case (Cons p ps)
  obtain k v where p: "p = (k, v)" by (cases p)
  have "length (foldl (\<lambda>d (k, v). AList.update k (g v) d) (AList.update k (g v) d0) ps)
        \<le> length (AList.update k (g v) d0) + length ps"
    by (rule Cons.IH)
  also have "\<dots> \<le> Suc (length d0) + length ps"
    using length_update_le [of k "g v" d0] by simp
  finally show ?case by (simp add: p)
qed

lemma foldl_update_values:
  "(k, v) \<in> set (foldl (\<lambda>d (k, v). AList.update k (g v) d) d0 ps) \<Longrightarrow>
   (k, v) \<in> set d0 \<or> (\<exists>x. (k, x) \<in> set ps \<and> v = g x)"
proof (induction ps arbitrary: d0)
  case Nil
  then show ?case by simp
next
  case (Cons p ps)
  obtain k' x' where p: "p = (k', x')" by (cases p)
  from Cons.prems have "(k, v) \<in> set (foldl (\<lambda>d (k, v). AList.update k (g v) d) (AList.update k' (g x') d0) ps)"
    by (simp add: p)
  from Cons.IH [OF this] show ?case
    using set_update_subset [of k' "g x'" d0] by (auto simp: p)
qed

subsection \<open>The twenty largest\<close>

lemma top20_split:
  "\<exists>dropped. mset (top20 pairs) + mset dropped = mset pairs \<and>
     length (top20 pairs) = min 20 (length pairs) \<and>
     (\<forall>p \<in> set (top20 pairs). \<forall>q \<in> set dropped. \<bar>snd q\<bar> \<le> \<bar>snd p\<bar>)"
proof -
  let ?f = "\<lambda>x :: string \<times> real. - \<bar>snd x\<bar>"
  let ?srt = "sort_key ?f pairs"
  let ?dropped = "drop 20 ?srt"
  have "mset (take 20 ?srt @ drop 20 ?srt) = mset ?srt"
    by (simp only: append_take_drop_id)
  then have m: "mset (top20 pairs) + mset ?dropped = mset pairs"
    by (simp only: top20_def mset_append mset_sort)
  have l: "length (top20 pairs) = min 20 (length pairs)"
    by (simp add: top20_def)
  have "sorted (map ?f (take 20 ?srt @ drop 20 ?srt))"
    by (simp only: append_take_drop_id sorted_sort_key)
  then have "\<forall>x \<in> set (map ?f (take 20 ?srt)). \<forall>y \<in> set (map ?f (drop 20 ?srt)). x \<le> y"
    by (simp only: map_append sorted_append) blast
  then have o: "\<forall>p \<in> set (top20 pairs). \<forall>q \<in> set ?dropped. \<bar>snd q\<bar> \<le> \<bar>snd p\<bar>"
    by (auto simp: top20_def)
  from m l o show ?thesis by blast
qed

lemma rounded_dict_facts:
  "length (rounded_dict ps) \<le> length ps"
  "fst ` set (rounded_dict ps) = fst ` set ps"
  "(k, v) \<in> set (rounded_dict ps) \<Longrightarrow> \<exists>x. (k, x) \<in> set ps \<and> v = py_round x 4"
  using foldl_update_length [of "\<lambda>v. py_round v 4" "[]" ps]
    foldl_update_keys [of "\<lambda>v. py_round v 4" "[]" ps]
    foldl_update_values [of k v "\<lambda>v. py_round v 4" "[]" ps]
  by (simp_all add: rounded_dict_def)

subsection \<open>The loop keeps the first maximum\<close>

lemma first_max_init: "first_max fe [] init_train_state"
  by (simp add: first_max_def init_train_state_def)

lemma first_max_new_best:
  assumes "fe name = Inr e" and "- 1 < auc e"
    and "\<forall>j < length processed. \<forall>e'. fe (processed ! j) = Inr e' \<longrightarrow> auc e' < auc e"
    and "best_model s = Some (fitted e)" and "best_model_name s = Some name" and "best_auc s = auc e"
  shows "first_max fe (processed @ [name]) s"
proof -
  let ?i = "length processed"
  have "?i < length (processed @ [name])" by simp
  moreover have "fe ((processed @ [name]) ! ?i) = Inr e" using assms(1) by simp
  moreover have "\<forall>j < length (processed @ [name]). \<forall>e'. fe ((processed @ [name]) ! j) = Inr e' \<longrightarrow> auc e' \<le> auc e"
    using assms(1,3) by (auto simp: nth_append less_Suc_eq)
  moreover have "\<forall>j < ?i. \<forall>e'. fe ((processed @ [name]) ! j) = Inr e' \<longrightarrow> auc e' < auc e"
    using assms(3) by (simp add: nth_append)
  ultimately show ?thesis
    unfolding first_max_def using assms(2,4,5,6) by (simp only: option.case) (metis nth_append_length)
qed

lemma first_max_step:
  assumes inv: "first_max fe processed s" and fe: "fe name = Inr e"
  shows "first_max fe (processed @ [name]) (family_step name e s)"
proof (cases "auc e > best_auc s")
  case True
  let ?s = "family_step name e s"
  have s: "best_model ?s = Some (fitted e)" "best_model_name ?s = Some name" "best_auc ?s = auc e"
    using True by (simp_all add: family_step_def)
  have lt: "\<forall>j < length processed. \<forall>e'. fe (processed ! j) = Inr e' \<longrightarrow> auc e' < auc e"
    using inv True by (cases "best_model s") (auto simp: first_max_def)
  have "- 1 < auc e"
    using inv True by (cases "best_model s") (auto simp: first_max_def)
  with fe lt s show ?thesis by (intro first_max_new_best)
next
  case False
  let ?s = "family_step name e s"
  have s: "best_model ?s = best_model s" "best_model_name ?s = best_model_name s" "best_auc ?s = best_auc s"
    using False by (simp_all add: family_step_def)
  show ?thesis
  proof (cases "best_model s")
    case None
    with inv False fe s show ?thesis
      by (auto simp: first_max_def nth_append less_Suc_eq)
  next
    case (Some m)
    with inv obtain i e0 where i: "i < length processed" "fe (processed ! i) = Inr e0" "m = fitted e0"
      "best_model_name s = Some (processed ! i)" "best_auc s = auc e0" "- 1 < auc e0"
      "\<forall>j < length processed. \<forall>e'. fe (processed ! j) = Inr e' \<longrightarrow> auc e' \<le> auc e0"
      "\<forall>j < i. \<forall>e'. fe (processed ! j) = Inr e' \<longrightarrow> auc e' < auc e0"
      by (auto simp: first_max_def)
    have a: "i < length (processed @ [name])" using i(1) by simp
    have b: "(processed @ [name]) ! i = processed ! i" using i(1) by (simp add: nth_append)
    have c: "\<forall>j < length (processed @ [name]). \<forall>e'. fe ((processed @ [name]) ! j) = Inr e' \<longrightarrow> auc e' \<le> auc e0"
      using i(5,7) False fe by (auto simp: nth_append less_Suc_eq)
    have d: "\<forall>j < i. \<forall>e'. fe ((processed @ [name]) ! j) = Inr e' \<longrightarrow> auc e' < auc e0"
      using i(1,8) by (auto simp: nth_append)
    show ?thesis
      unfolding first_max_def s Some option.case
      using a b c d i(2-6) by metis
  qed
qed

lemma first_max_loop:
  "first_max fe processed s \<Longrightarrow> train_loop fe names s = Inr s' \<Longrightarrow>
   first_max fe (processed @ names) s'"
proof (induction names arbitrary: processed s)
  case Nil
  then show ?case by simp
next
  case (Cons name names)
  from Cons.prems(2) obtain e where e: "fe name = Inr e"
    and loop: "train_loop fe names (family_step name e s) = Inr s'"
    by (auto split: sum.splits)
  from Cons.prems(1) e have "first_max fe (processed @ [name]) (family_step name e s)"
    by (rule first_max_step)
  from Cons.IH [OF this loop] show ?case by simp
qed

lemma metrics_family_step:
  "metrics (family_step name e s) = AList.update name (metrics_entry e) (metrics s)"
  by (simp add: family_step_def Let_def)

lemma entries_ok_step:
  assumes "entries_ok processed s"
  shows "entries_ok (processed @ [name]) (family_step name e s)"
  using assms unfolding entries_ok_def metrics_family_step update_conv' by auto

lemma entries_ok_loop:
  "entries_ok processed s \<Longrightarrow> train_loop fe names s = Inr s' \<Longrightarrow>
   entries_ok (processed @ names) s'"
proof (induction names arbitrary: processed s)
  case Nil
  then show ?case by simp
next
  case (Cons name names)
  from Cons.prems(2) obtain e where e: "fe name = Inr e"
    and loop: "train_loop fe names (family_step name e s) = Inr s'"
    by (auto split: sum.splits)
  from Cons.prems(1) have "entries_ok (processed @ [name]) (family_step name e s)"
    by (rule entries_ok_step)
  from Cons.IH [OF this loop] show ?case by simp
qed

lemma train_loop_total:
  "\<forall>name \<in> set names. \<exists>e. fe name = Inr e \<Longrightarrow> \<exists>s'. train_loop fe names s = Inr s'"
  by (induction names arbitrary: s) auto

lemma trainer_InrD:
  assumes "trainer dataset fe = Inr (m, report)"
  obtains s where "train_loop fe models_keys init_train_state = Inr s"
    and "best_model s = Some m"
    and "report = JObj (AList.update ''current_model''
                          (case best_model_name s of None \<Rightarrow> JNull | Some n \<Rightarrow> JStr n) (metrics s))"
  using assms by (auto simp: trainer_def save_best_def split: sum.splits option.splits)

text \<open>The definitions that evaluating a run of the script unfolds.\<close>

lemmas trainer_eval =
  trainer_def save_best_def init_train_state_def family_step_def metrics_entry_def
  feature_importance_of_def extract_feature_importance_def get_feature_names_def
  importance_of_def top20_def rounded_dict_def py_round_def round_half_even_def
  models_keys_def Let_def

lemmas example_families =
  example_fit_eval_def example_report_def example_lr_def example_rf_def example_xgb_def
  example_lr_evaluation_def example_rf_evaluation_def example_xgb_evaluation_def

text \<open>
  C2. The script finishes when the data set is prepared and every family is fitted and
  scored with a score of at least 0. When it finishes, the pipeline it dumps and the name
  it records as \<^verbatim>\<open>current_model\<close> belong to one family of \<^verbatim>\<open>models\<close>; no family has
  a higher held-out AUC, and every family before it in the iteration order has a strictly
  lower one. So the highest AUC wins and, on a tie, the earlier family is kept.
\<close>

theorem trainer_keeps_first_maximum:
  "((\<forall>name \<in> set models_keys. \<exists>e. fe name = Inr e \<and> 0 \<le> auc e) \<longrightarrow>
      (\<exists>m report. trainer (Some (Inr ())) fe = Inr (m, report))) \<and>
   (trainer dataset fe = Inr (m, report) \<longrightarrow>
      (\<exists>i < length models_keys. \<exists>e d.
          fe (models_keys ! i) = Inr e \<and> m = fitted e \<and>
          report = JObj d \<and> map_of d ''current_model'' = Some (JStr (models_keys ! i)) \<and>
          (\<forall>j < length models_keys. \<forall>e'. fe (models_keys ! j) = Inr e' \<longrightarrow> auc e' \<le> auc e) \<and>
          (\<forall>j < i. \<forall>e'. fe (models_keys ! j) = Inr e' \<longrightarrow> auc e' < auc e)))"
proof (intro conjI impI)
  assume all: "\<forall>name \<in> set models_keys. \<exists>e. fe name = Inr e \<and> 0 \<le> auc e"
  then have "\<forall>name \<in> set models_keys. \<exists>e. fe name = Inr e" by blast
  then obtain s where s: "train_loop fe models_keys init_train_state = Inr s"
    using train_loop_total by blast
  have inv: "first_max fe models_keys s"
    using first_max_loop [OF first_max_init s] by simp
  have "best_model s \<noteq> None"
  proof
    assume none: "best_model s = None"
    from all obtain e where e: "fe (models_keys ! 0) = Inr e" "0 \<le> auc e"
      by (auto simp: models_keys_def)
    from inv none have "\<forall>j < length models_keys. \<forall>e. fe (models_keys ! j) = Inr e \<longrightarrow> auc e \<le> - 1"
      by (simp add: first_max_def)
    moreover have "0 < length models_keys" by (simp add: models_keys_def)
    ultimately have "auc e \<le> - 1" using e(1) by blast
    with e(2) show False by simp
  qed
  with s show "\<exists>m report. trainer (Some (Inr ())) fe = Inr (m, report)"
    by (auto simp: trainer_def save_best_def)
next
  assume "trainer dataset fe = Inr (m, report)"
  then obtain s where s: "train_loop fe models_keys init_train_state = Inr s"
    and m: "best_model s = Some m"
    and r: "report = JObj (AList.update ''current_model''
                          (case best_model_name s of None \<Rightarrow> JNull | Some n \<Rightarrow> JStr n) (metrics s))"
    by (rule trainer_InrD)
  have "first_max fe models_keys s"
    using first_max_loop [OF first_max_init s] by simp
  with m obtain i e where i: "i < length models_keys" "fe (models_keys ! i) = Inr e" "m = fitted e"
      "best_model_name s = Some (models_keys ! i)"
      "\<forall>j < length models_keys. \<forall>e'. fe (models_keys ! j) = Inr e' \<longrightarrow> auc e' \<le> auc e"
      "\<forall>j < i. \<forall>e'. fe (models_keys ! j) = Inr e' \<longrightarrow> auc e' < auc e"
    by (auto simp: first_max_def)
  let ?d = "AList.update ''current_model'' (JStr (models_keys ! i)) (metrics s)"
  have "report = JObj ?d" using r i(4) by simp
  moreover have "map_of ?d ''current_model'' = Some (JStr (models_keys ! i))"
    by (simp add: update_conv')
  ultimately show "\<exists>i < length models_keys. \<exists>e d.
          fe (models_keys ! i) = Inr e \<and> m = fitted e \<and>
          report = JObj d \<and> map_of d ''current_model'' = Some (JStr (models_keys ! i)) \<and>
          (\<forall>j < length models_keys. \<forall>e'. fe (models_keys ! j) = Inr e' \<longrightarrow> auc e' \<le> auc e) \<and>
          (\<forall>j < i. \<forall>e'. fe (models_keys ! j) = Inr e' \<longrightarrow> auc e' < auc e)"
    using i(1,2,3,5,6) by blast
qed

theorem trainer_keeps_first_maximum_witness:
  "list_all (\<lambda>name. \<exists>e. example_fit_eval name = Inr e \<and> 0 \<le> auc e) models_keys \<and>
   trainer (Some (Inr ())) example_fit_eval = Inr (example_lr, example_report) \<and>
   (\<exists>i < length models_keys. \<exists>e d.
       example_fit_eval (models_keys ! i) = Inr e \<and> example_lr = fitted e \<and>
       example_report = JObj d \<and> map_of d ''current_model'' = Some (JStr (models_keys ! i)) \<and>
       (\<forall>j < length models_keys. \<forall>e'. example_fit_eval (models_keys ! j) = Inr e' \<longrightarrow> auc e' \<le> auc e) \<and>
       (\<forall>j < i. \<forall>e'. example_fit_eval (models_keys ! j) = Inr e' \<longrightarrow> auc e' < auc e))"
proof -
  have h1: "\<forall>name \<in> set models_keys. \<exists>e. example_fit_eval name = Inr e \<and> 0 \<le> auc e"
    by (simp add: models_keys_def example_families)
  have h2: "trainer (Some (Inr ())) example_fit_eval = Inr (example_lr, example_report)"
    by (simp add: trainer_eval example_families)
  from h1 have h1': "list_all (\<lambda>name. \<exists>e. example_fit_eval name = Inr e \<and> 0 \<le> auc e) models_keys"
    by (simp add: list_all_iff)
  from trainer_keeps_first_maximum [of example_fit_eval "Some (Inr ())" example_lr example_report]
    h1 h1' h2
  show ?thesis by blast
qed

text \<open>
  C3. Whenever the script writes the report, the value under \<^verbatim>\<open>current_model\<close> is the
  name of a family, that name is another top-level key of the same report, and the entry
  under it has numbers under \<^verbatim>\<open>auc\<close> and \<^verbatim>\<open>accuracy\<close>.
\<close>

theorem current_model_names_scored_entry:
  assumes "trainer dataset fe = Inr (m, report)"
  shows "\<exists>d name entry a c.
           report = JObj d \<and> map_of d ''current_model'' = Some (JStr name) \<and>
           name \<noteq> ''current_model'' \<and> map_of d name = Some (JObj entry) \<and>
           map_of entry ''auc'' = Some (JNum a) \<and> map_of entry ''accuracy'' = Some (JNum c)"
proof -
  from assms obtain s where s: "train_loop fe models_keys init_train_state = Inr s"
    and m: "best_model s = Some m"
    and r: "report = JObj (AList.update ''current_model''
                          (case best_model_name s of None \<Rightarrow> JNull | Some n \<Rightarrow> JStr n) (metrics s))"
    by (rule trainer_InrD)
  have "first_max fe models_keys s"
    using first_max_loop [OF first_max_init s] by simp
  with m obtain i where i: "i < length models_keys" "best_model_name s = Some (models_keys ! i)"
    by (auto simp: first_max_def)
  let ?name = "models_keys ! i"
  let ?d = "AList.update ''current_model'' (JStr ?name) (metrics s)"
  have name: "?name \<in> set models_keys" using i(1) by simp
  then have ne: "?name \<noteq> ''current_model''" by (auto simp: models_keys_def)
  have "entries_ok ([] @ models_keys) s"
    by (rule entries_ok_loop [OF _ s]) (simp add: entries_ok_def)
  with name obtain e where e: "map_of (metrics s) ?name = Some (metrics_entry e)"
    by (auto simp: entries_ok_def)
  have "report = JObj ?d" using r i(2) by simp
  moreover have "map_of ?d ''current_model'' = Some (JStr ?name)"
    by (simp add: update_conv')
  moreover have "map_of ?d ?name = Some (metrics_entry e)"
    using e ne by (simp add: update_conv')
  ultimately show ?thesis
    using ne unfolding metrics_entry_def by (intro exI conjI) (assumption | simp)+
qed

theorem current_model_names_scored_entry_witness:
  "trainer (Some (Inr ())) example_fit_eval = Inr (example_lr, example_report) \<and>
   (\<exists>d name entry a c.
       example_report = JObj d \<and> map_of d ''current_model'' = Some (JStr name) \<and>
       name \<noteq> ''current_model'' \<and> map_of d name = Some (JObj entry) \<and>
       map_of entry ''auc'' = Some (JNum a) \<and> map_of entry ''accuracy'' = Some (JNum c))"
proof -
  have h: "trainer (Some (Inr ())) example_fit_eval = Inr (example_lr, example_report)"
    by (simp add: trainer_eval example_families)
  from current_model_names_scored_entry [OF h] h show ?thesis by blast
qed

subsection \<open>Feature importance of a family\<close>

lemma entries_recorded_step:
  assumes "entries_recorded fe processed s" and "fe name = Inr e"
  shows "entries_recorded fe (processed @ [name]) (family_step name e s)"
  using assms unfolding entries_recorded_def metrics_family_step update_conv' by auto

lemma entries_recorded_loop:
  "entries_recorded fe processed s \<Longrightarrow> train_loop fe names s = Inr s' \<Longrightarrow>
   entries_recorded fe (processed @ names) s'"
proof (induction names arbitrary: processed s)
  case Nil
  then show ?case by simp
next
  case (Cons name names)
  from Cons.prems(2) obtain e where e: "fe name = Inr e"
    and loop: "train_loop fe names (family_step name e s) = Inr s'"
    by (auto split: sum.splits)
  from Cons.prems(1) e have "entries_recorded fe (processed @ [name]) (family_step name e s)"
    by (rule entries_recorded_step)
  from Cons.IH [OF this loop] show ?case by simp
qed

text \<open>The entry of a family in the report that is written.\<close>

lemma report_entry:
  assumes "trainer dataset fe = Inr (m, report)" and "name \<in> set models_keys"
    and "fe name = Inr e"
  shows "\<exists>d. report = JObj d \<and> map_of d name = Some (metrics_entry e)"
proof -
  from assms(1) obtain s where s: "train_loop fe models_keys init_train_state = Inr s"
    and r: "report = JObj (AList.update ''current_model''
                          (case best_model_name s of None \<Rightarrow> JNull | Some n \<Rightarrow> JStr n) (metrics s))"
    by (rule trainer_InrD)
  have "entries_recorded fe ([] @ models_keys) s"
    by (rule entries_recorded_loop [OF _ s]) (simp add: entries_recorded_def)
  with assms(2,3) have "map_of (metrics s) name = Some (metrics_entry e)"
    by (auto simp: entries_recorded_def)
  moreover have "name \<noteq> ''current_model''"
    using assms(2) by (auto simp: models_keys_def)
  ultimately have "map_of (AList.update ''current_model''
      (case best_model_name s of None \<Rightarrow> JNull | Some n \<Rightarrow> JStr n) (metrics s)) name =
      Some (metrics_entry e)"
    by (simp add: update_conv')
  with r show ?thesis by blast
qed

text \<open>The mapping of a pipeline whose names and importances can be read.\<close>

lemma feature_importance_of_kept:
  assumes "get_feature_names (transformers p) = Inr names"
    and "importance_of (clf p) = Inr (Some imp)"
  shows "\<exists>kept dropped.
          mset kept + mset dropped = mset (zip names imp) \<and>
          length kept = min 20 (length (zip names imp)) \<and>
          (\<forall>p \<in> set kept. \<forall>q \<in> set dropped. \<bar>snd q\<bar> \<le> \<bar>snd p\<bar>) \<and>
          length (feature_importance_of p) \<le> 20 \<and>
          fst ` set (feature_importance_of p) = fst ` set kept \<and>
          (\<forall>(k, v) \<in> set (feature_importance_of p).
              \<exists>x. (k, x) \<in> set kept \<and> v = py_round x 4 \<and> \<bar>v - x\<bar> \<le> 1 / 20000 \<and>
                  (\<exists>n :: int. v = of_int n / 10 ^ 4))"
proof -
  let ?pairs = "zip names imp"
  let ?kept = "top20 ?pairs"
  from assms have fi: "feature_importance_of p = rounded_dict ?kept"
    by (simp add: feature_importance_of_def extract_feature_importance_def)
  obtain dropped where d: "mset ?kept + mset dropped = mset ?pairs"
    "length ?kept = min 20 (length ?pairs)"
    "\<forall>p \<in> set ?kept. \<forall>q \<in> set dropped. \<bar>snd q\<bar> \<le> \<bar>snd p\<bar>"
    using top20_split [of ?pairs] by blast
  have len: "length (feature_importance_of p) \<le> 20"
    using rounded_dict_facts(1) [of ?kept] d(2) unfolding fi by linarith
  have keys: "fst ` set (feature_importance_of p) = fst ` set ?kept"
    unfolding fi by (rule rounded_dict_facts(2))
  have vals: "\<forall>(k, v) \<in> set (feature_importance_of p).
      \<exists>x. (k, x) \<in> set ?kept \<and> v = py_round x 4 \<and> \<bar>v - x\<bar> \<le> 1 / 20000 \<and>
          (\<exists>n :: int. v = of_int n / 10 ^ 4)"
  proof (clarify)
    fix k v assume "(k, v) \<in> set (feature_importance_of p)"
    then obtain x where x: "(k, x) \<in> set ?kept" "v = py_round x 4"
      unfolding fi using rounded_dict_facts(3) by blast
    have "\<bar>v - x\<bar> \<le> 1 / 20000"
      using py_round_close [of x 4] x(2) by simp
    moreover have "\<exists>n :: int. v = of_int n / 10 ^ 4"
      unfolding x(2) py_round_def by blast
    ultimately show "\<exists>x. (k, x) \<in> set ?kept \<and> v = py_round x 4 \<and> \<bar>v - x\<bar> \<le> 1 / 20000 \<and>
          (\<exists>n :: int. v = of_int n / 10 ^ 4)"
      using x by blast
  qed
  from d len keys vals show ?thesis by blast
qed

text \<open>
  C7. Take a run of the script that writes its report, a family of \<^verbatim>\<open>models\<close> and the
  pipeline fitted for it. When the feature names and the importances of the pipeline can
  be read, the pairs of name and importance split into the pairs kept and the pairs
  dropped: at most twenty are kept (all of them when there are no more than twenty) and no
  dropped pair has a larger absolute importance than a kept one. The entry of the family
  in the report then holds, beside the two scores, a mapping of at most twenty entries
  whose keys are the feature names of the kept pairs and whose values are each the
  importance of a kept pair of that name rounded to four decimal places (a multiple of
  0.0001 no further than 0.00005 from it). The importances are the absolute values of the
  first row of the coefficients for a classifier that has coefficients, and the built-in
  importances for one that has those instead. When the extraction raises for the family,
  its entry in the report holds the two scores and the empty mapping; the loop goes on
  with the remaining families from a state in which that entry is recorded.
\<close>

theorem feature_importance_top20:
  "(trainer dataset fe = Inr (m, report) \<and> name \<in> set models_keys \<and> fe name = Inr e \<and>
    get_feature_names (transformers (fitted e)) = Inr names \<and>
    importance_of (clf (fitted e)) = Inr (Some imp) \<longrightarrow>
      (\<exists>d recorded kept dropped.
          report = JObj d \<and>
          map_of d name =
            Some (JObj [(''auc'', JNum (py_round (auc e) 3)),
                        (''accuracy'', JNum (py_round (acc e) 3)),
                        (''feature_importance'',
                           JObj (map (\<lambda>(fname, val). (fname, JNum val)) recorded))]) \<and>
          mset kept + mset dropped = mset (zip names imp) \<and>
          length kept = min 20 (length (zip names imp)) \<and>
          (\<forall>p \<in> set kept. \<forall>q \<in> set dropped. \<bar>snd q\<bar> \<le> \<bar>snd p\<bar>) \<and>
          length recorded \<le> 20 \<and>
          fst ` set recorded = fst ` set kept \<and>
          (\<forall>(k, v) \<in> set recorded.
              \<exists>x. (k, x) \<in> set kept \<and> v = py_round x 4 \<and> \<bar>v - x\<bar> \<le> 1 / 20000 \<and>
                  (\<exists>n :: int. v = of_int n / 10 ^ 4)))) \<and>
   (coef lin = Some (row # rows) \<longrightarrow> importance_of lin = Inr (Some (map abs row))) \<and>
   (coef tree = None \<and> feature_importances tree = Some tree_imp \<longrightarrow> importance_of tree = Inr (Some tree_imp)) \<and>
   (trainer dataset' fe' = Inr (m', report') \<and> name' \<in> set models_keys \<and> fe' name' = Inr e' \<and>
    extract_feature_importance (fitted e') = Inl err' \<longrightarrow>
      (\<exists>d. report' = JObj d \<and>
           map_of d name' =
             Some (JObj [(''auc'', JNum (py_round (auc e') 3)),
                         (''accuracy'', JNum (py_round (acc e') 3)),
                         (''feature_importance'', JObj [])]))) \<and>
   (extract_feature_importance (fitted e'') = Inl err'' \<and> fe'' name'' = Inr e'' \<longrightarrow>
      train_loop fe'' (name'' # rest) s = train_loop fe'' rest (family_step name'' e'' s) \<and>
      map_of (metrics (family_step name'' e'' s)) name'' =
        Some (JObj [(''auc'', JNum (py_round (auc e'') 3)),
                    (''accuracy'', JNum (py_round (acc e'') 3)),
                    (''feature_importance'', JObj [])]))"
proof (intro conjI impI)
  assume a: "trainer dataset fe = Inr (m, report) \<and> name \<in> set models_keys \<and> fe name = Inr e \<and>
    get_feature_names (transformers (fitted e)) = Inr names \<and>
    importance_of (clf (fitted e)) = Inr (Some imp)"
  then obtain d where d: "report = JObj d" "map_of d name = Some (metrics_entry e)"
    using report_entry by blast
  from a obtain kept dropped where k:
    "mset kept + mset dropped = mset (zip names imp)"
    "length kept = min 20 (length (zip names imp))"
    "\<forall>p \<in> set kept. \<forall>q \<in> set dropped. \<bar>snd q\<bar> \<le> \<bar>snd p\<bar>"
    "length (feature_importance_of (fitted e)) \<le> 20"
    "fst ` set (feature_importance_of (fitted e)) = fst ` set kept"
    "\<forall>(k, v) \<in> set (feature_importance_of (fitted e)).
        \<exists>x. (k, x) \<in> set kept \<and> v = py_round x 4 \<and> \<bar>v - x\<bar> \<le> 1 / 20000 \<and>
            (\<exists>n :: int. v = of_int n / 10 ^ 4)"
    using feature_importance_of_kept [of "fitted e" names imp] by blast
  from d(2) have "map_of d name =
      Some (JObj [(''auc'', JNum (py_round (auc e) 3)),
                  (''accuracy'', JNum (py_round (acc e) 3)),
                  (''feature_importance'',
                     JObj (map (\<lambda>(fname, val). (fname, JNum val))
                            (feature_importance_of (fitted e))))])"
    by (simp only: metrics_entry_def)
  with d(1) k
  show "\<exists>d recorded kept dropped.
          report = JObj d \<and>
          map_of d name =
            Some (JObj [(''auc'', JNum (py_round (auc e) 3)),
                        (''accuracy'', JNum (py_round (acc e) 3)),
                        (''feature_importance'',
                           JObj (map (\<lambda>(fname, val). (fname, JNum val)) recorded))]) \<and>
          mset kept + mset dropped = mset (zip names imp) \<and>
          length kept = min 20 (length (zip names imp)) \<and>
          (\<forall>p \<in> set kept. \<forall>q \<in> set dropped. \<bar>snd q\<bar> \<le> \<bar>snd p\<bar>) \<and>
          length recorded \<le> 20 \<and>
          fst ` set recorded = fst ` set kept \<and>
          (\<forall>(k, v) \<in> set recorded.
              \<exists>x. (k, x) \<in> set kept \<and> v = py_round x 4 \<and> \<bar>v - x\<bar> \<le> 1 / 20000 \<and>
                  (\<exists>n :: int. v = of_int n / 10 ^ 4))"
    by blast
next
  assume "coef lin = Some (row # rows)"
  then show "importance_of lin = Inr (Some (map abs row))"
    by (simp add: importance_of_def)
next
  assume "coef tree = None \<and> feature_importances tree = Some tree_imp"
  then show "importance_of tree = Inr (Some tree_imp)"
    by (simp add: importance_of_def)
next
  assume a: "trainer dataset' fe' = Inr (m', report') \<and> name' \<in> set models_keys \<and>
    fe' name' = Inr e' \<and> extract_feature_importance (fitted e') = Inl err'"
  then obtain d where d: "report' = JObj d" "map_of d name' = Some (metrics_entry e')"
    using report_entry by blast
  from a have "feature_importance_of (fitted e') = []"
    by (simp add: feature_importance_of_def)
  with d(2) have "map_of d name' =
      Some (JObj [(''auc'', JNum (py_round (auc e') 3)),
                  (''accuracy'', JNum (py_round (acc e') 3)),
                  (''feature_importance'', JObj [])])"
    by (simp add: metrics_entry_def)
  with d(1) show "\<exists>d. report' = JObj d \<and>
           map_of d name' =
             Some (JObj [(''auc'', JNum (py_round (auc e') 3)),
                         (''accuracy'', JNum (py_round (acc e') 3)),
                         (''feature_importance'', JObj [])])"
    by blast
next
  assume "extract_feature_importance (fitted e'') = Inl err'' \<and> fe'' name'' = Inr e''"
  then show "train_loop fe'' (name'' # rest) s = train_loop fe'' rest (family_step name'' e'' s)"
    by simp
next
  assume "extract_feature_importance (fitted e'') = Inl err'' \<and> fe'' name'' = Inr e''"
  then have "feature_importance_of (fitted e'') = []"
    by (simp add: feature_importance_of_def)
  then show "map_of (metrics (family_step name'' e'' s)) name'' =
        Some (JObj [(''auc'', JNum (py_round (auc e'') 3)),
                    (''accuracy'', JNum (py_round (acc e'') 3)),
                    (''feature_importance'', JObj [])])"
    by (simp add: family_step_def Let_def update_conv' metrics_entry_def)
qed

theorem feature_importance_top20_witness:
  "(trainer (Some (Inr ())) example_fit_eval_wide = Inr (example_wide, example_report_wide) \<and>
    ''Random Forest'' \<in> set models_keys \<and>
    example_fit_eval_wide ''Random Forest'' = Inr example_wide_evaluation \<and>
    get_feature_names (transformers (fitted example_wide_evaluation)) = Inr example_wide_names \<and>
    importance_of (clf (fitted example_wide_evaluation)) = Inr (Some example_wide_importances)) \<and>
   coef (clf example_lr) = Some ([- 1.23456, 0.5, 0.25] # []) \<and>
   (coef (clf example_wide) = None \<and>
    feature_importances (clf example_wide) = Some example_wide_importances) \<and>
   (trainer (Some (Inr ())) example_fit_eval = Inr (example_lr, example_report) \<and>
    ''XGBoost'' \<in> set models_keys \<and>
    example_fit_eval ''XGBoost'' = Inr example_xgb_evaluation \<and>
    extract_feature_importance (fitted example_xgb_evaluation) =
      Inl (Raised ''NotFittedError'' ''not fitted'')) \<and>
   length example_wide_names = 22 \<and>
   length example_wide_recorded = 20 \<and>
   map_of example_wide_recorded ''h_t'' = Some 0.1235 \<and>
   map_of example_wide_recorded ''a'' = None \<and>
   (\<exists>d recorded kept dropped.
       example_report_wide = JObj d \<and>
       map_of d ''Random Forest'' =
         Some (JObj [(''auc'', JNum (py_round (auc example_wide_evaluation) 3)),
                     (''accuracy'', JNum (py_round (acc example_wide_evaluation) 3)),
                     (''feature_importance'',
                        JObj (map (\<lambda>(fname, val). (fname, JNum val)) recorded))]) \<and>
       mset kept + mset dropped = mset (zip example_wide_names example_wide_importances) \<and>
       length kept = min 20 (length (zip example_wide_names example_wide_importances)) \<and>
       (\<forall>p \<in> set kept. \<forall>q \<in> set dropped. \<bar>snd q\<bar> \<le> \<bar>snd p\<bar>) \<and>
       length recorded \<le> 20 \<and>
       fst ` set recorded = fst ` set kept \<and>
       (\<forall>(k, v) \<in> set recorded.
           \<exists>x. (k, x) \<in> set kept \<and> v = py_round x 4 \<and> \<bar>v - x\<bar> \<le> 1 / 20000 \<and>
               (\<exists>n :: int. v = of_int n / 10 ^ 4))) \<and>
   importance_of (clf example_lr) = Inr (Some (map abs [- 1.23456, 0.5, 0.25])) \<and>
   importance_of (clf example_wide) = Inr (Some example_wide_importances) \<and>
   (\<exists>d. example_report = JObj d \<and>
        map_of d ''XGBoost'' =
          Some (JObj [(''auc'', JNum (py_round (auc example_xgb_evaluation) 3)),
                      (''accuracy'', JNum (py_round (acc example_xgb_evaluation) 3)),
                      (''feature_importance'', JObj [])])) \<and>
   train_loop example_fit_eval (''XGBoost'' # []) init_train_state =
     train_loop example_fit_eval [] (family_step ''XGBoost'' example_xgb_evaluation init_train_state) \<and>
   map_of (metrics (family_step ''XGBoost'' example_xgb_evaluation init_train_state)) ''XGBoost'' =
     Some (JObj [(''auc'', JNum (py_round (auc example_xgb_evaluation) 3)),
                 (''accuracy'', JNum (py_round (acc example_xgb_evaluation) 3)),
                 (''feature_importance'', JObj [])])"
proof -
  have h1: "trainer (Some (Inr ())) example_fit_eval_wide = Inr (example_wide, example_report_wide) \<and>
    ''Random Forest'' \<in> set models_keys \<and>
    example_fit_eval_wide ''Random Forest'' = Inr example_wide_evaluation \<and>
    get_feature_names (transformers (fitted example_wide_evaluation)) = Inr example_wide_names \<and>
    importance_of (clf (fitted example_wide_evaluation)) = Inr (Some example_wide_importances)"
    by (simp add: trainer_eval example_families example_fit_eval_wide_def
        example_wide_evaluation_def example_wide_def example_wide_importances_def
        example_wide_names_def example_report_wide_def example_wide_recorded_def)
  have h2: "coef (clf example_lr) = Some ([- 1.23456, 0.5, 0.25] # [])"
    by (simp add: example_lr_def)
  have h3: "coef (clf example_wide) = None \<and>
            feature_importances (clf example_wide) = Some example_wide_importances"
    by (simp add: example_wide_def)
  have h4: "trainer (Some (Inr ())) example_fit_eval = Inr (example_lr, example_report) \<and>
    ''XGBoost'' \<in> set models_keys \<and>
    example_fit_eval ''XGBoost'' = Inr example_xgb_evaluation \<and>
    extract_feature_importance (fitted example_xgb_evaluation) =
      Inl (Raised ''NotFittedError'' ''not fitted'')"
    by (simp add: trainer_eval example_families)
  have h5: "extract_feature_importance (fitted example_xgb_evaluation) =
              Inl (Raised ''NotFittedError'' ''not fitted'') \<and>
            example_fit_eval ''XGBoost'' = Inr example_xgb_evaluation"
    using h4 by simp
  have c: "length example_wide_names = 22" "length example_wide_recorded = 20"
    "map_of example_wide_recorded ''h_t'' = Some 0.1235"
    "map_of example_wide_recorded ''a'' = None"
    by (simp_all add: example_wide_names_def example_wide_recorded_def)
  from feature_importance_top20 [where dataset = "Some (Inr ())" and fe = example_fit_eval_wide
      and m = example_wide and report = example_report_wide and name = "''Random Forest''"
      and e = example_wide_evaluation and names = example_wide_names
      and imp = example_wide_importances
      and lin = "clf example_lr" and row = "[- 1.23456, 0.5, 0.25]" and rows = "[]"
      and tree = "clf example_wide" and tree_imp = example_wide_importances
      and dataset' = "Some (Inr ())" and fe' = example_fit_eval and m' = example_lr
      and report' = example_report and name' = "''XGBoost''" and e' = example_xgb_evaluation
      and err' = "Raised ''NotFittedError'' ''not fitted''"
      and e'' = example_xgb_evaluation and err'' = "Raised ''NotFittedError'' ''not fitted''"
      and fe'' = example_fit_eval and name'' = "''XGBoost''" and rest = "[]"
      and s = init_train_state] h1 h2 h3 h4 h5 c
  show ?thesis by blast
qed

section \<open>Properties of the server\<close>

subsection \<open>Frames\<close>

lemma columns_setitem: "map_of (columns (setitem d label cells)) = (map_of (columns d))(label \<mapsto> cells)"
  by (simp add: setitem_def update_conv')

lemma nrows_setitem: "nrows (setitem d label cells) = nrows d"
  by (simp add: setitem_def)

lemma getitem_setitem:
  "getitem (setitem d label cells) k = (if k = label then Inr cells else getitem d k)"
  by (simp add: getitem_def columns_setitem)

lemma getitem_cong:
  "map_of (columns d) k = map_of (columns d') k \<Longrightarrow> getitem d k = getitem d' k"
  by (simp add: getitem_def)

lemma groupby_mean_cong:
  assumes "map_of (columns d) by = map_of (columns d') by"
    and "map_of (columns d) col = map_of (columns d') col"
  shows "groupby_mean d by col = groupby_mean d' by col"
proof -
  have g: "getitem d by = getitem d' by" "getitem d col = getitem d' col"
    using assms by (simp_all add: getitem_def)
  show ?thesis unfolding groupby_mean_def g by (rule refl)
qed

lemma nrows_strip_columns: "nrows (strip_columns d) = nrows d"
  by (simp add: strip_columns_def)

lemma empty_strip_columns: "empty_frame (strip_columns d) = empty_frame d"
  by (simp add: empty_frame_def strip_columns_def)

lemma wf_frame_getitem: "wf_frame d \<Longrightarrow> getitem d k = Inr cells \<Longrightarrow> length cells = nrows d"
  by (auto simp: wf_frame_def getitem_def list_all_iff split: option.splits dest!: map_of_SomeD)

lemma record_field:
  "map_of (map (\<lambda>(label, cells). (label, cells ! i)) cols) k = map_option (\<lambda>cells. cells ! i) (map_of cols k)"
  by (induction cols) auto

text \<open>Assigning to a bucket column leaves the other columns as they are.\<close>

lemma filter_update_other:
  "(\<And>v'. \<not> P (k, v')) \<Longrightarrow> filter P (AList.update k v al) = filter P al"
  by (induction al) auto

lemma other_columns_setitem:
  "label = ''TenureBucket'' \<or> label = ''MonthlyBucket'' \<Longrightarrow>
   other_columns (setitem d label cells) = other_columns d"
  by (auto simp: other_columns_def setitem_def intro!: filter_update_other)

lemma map_of_filter_key:
  "P k \<Longrightarrow> map_of (filter (\<lambda>(label, cells). P label) al) k = map_of al k"
  by (induction al) auto

lemma map_of_other_columns:
  "k \<noteq> ''TenureBucket'' \<Longrightarrow> k \<noteq> ''MonthlyBucket'' \<Longrightarrow>
   map_of (other_columns d) k = map_of (columns d) k"
  unfolding other_columns_def
  by (rule map_of_filter_key [of "\<lambda>l. l \<noteq> ''TenureBucket'' \<and> l \<noteq> ''MonthlyBucket''"]) simp

subsection \<open>Applying a function to a column, grouping and averaging\<close>

lemma apply_series_all2:
  "apply_series f cs = Inr vs \<Longrightarrow> list_all2 (\<lambda>c v. f c = Inr v) cs vs"
  by (induction cs arbitrary: vs) (auto split: sum.splits)

lemma apply_series_length: "apply_series f cs = Inr vs \<Longrightarrow> length vs = length cs"
  by (drule apply_series_all2) (simp add: list_all2_lengthD)

lemma apply_series_range:
  assumes "apply_series f cs = Inr vs" and "\<And>c v. f c = Inr v \<Longrightarrow> v \<in> R"
  shows "set vs \<subseteq> R"
proof
  fix v assume "v \<in> set vs"
  with apply_series_all2 [OF assms(1)] obtain c where "f c = Inr v"
    by (auto simp: list_all2_conv_all_nth in_set_conv_nth)
  then show "v \<in> R" by (rule assms(2))
qed

lemma to_numbers_all2:
  "to_numbers cs = Inr vs \<Longrightarrow> list_all2 (\<lambda>c v. to_number c = Inr v) cs vs"
  by (induction cs arbitrary: vs) (auto split: sum.splits)

lemma tenure_bucket_range:
  "tenure_bucket t = Inr v \<Longrightarrow> v \<in> {JStr ''0-12'', JStr ''13-24'', JStr ''25+''}"
  by (auto simp: tenure_bucket_def split: sum.splits bool.splits)

lemma monthly_bucket_range:
  "monthly_bucket m = Inr v \<Longrightarrow> v \<in> {JStr ''0-50'', JStr ''51-100'', JStr ''101+''}"
  by (auto simp: monthly_bucket_def split: sum.splits bool.splits)

lemma mean_unit_interval:
  fixes xs :: "real list"
  assumes "xs \<noteq> []" and "\<forall>x \<in> set xs. 0 \<le> x \<and> x \<le> 1"
  shows "0 \<le> sum_list xs / real (length xs) \<and> sum_list xs / real (length xs) \<le> 1"
proof -
  have "0 \<le> sum_list xs" using assms(2) by (simp add: sum_list_nonneg)
  moreover have "sum_list xs \<le> real (length xs)"
    using assms(2) by (induction xs) auto
  moreover have "0 < real (length xs)" using assms(1) by simp
  ultimately show ?thesis by (simp add: divide_le_eq)
qed

lemma mean_skipna_unit_interval:
  assumes "g \<noteq> []" and "\<forall>v \<in> set g. v = Some 0 \<or> v = Some 1"
  shows "\<exists>x. mean_skipna g = JNum x \<and> 0 \<le> x \<and> x \<le> 1"
proof -
  let ?present = "List.map_filter (\<lambda>x. x) g"
  have p: "?present = map the g"
    using assms(2) by (induction g) (auto simp: List.map_filter_simps)
  have ne: "?present \<noteq> []" using assms(1) p by simp
  have "\<forall>x \<in> set ?present. 0 \<le> x \<and> x \<le> 1"
    unfolding p using assms(2) by auto
  from mean_unit_interval [OF ne this] ne show ?thesis
    by (simp add: mean_skipna_def Let_def)
qed

lemma group_of_nonempty:
  assumes "k \<in> set ks" and "length ks = length vals"
  shows "group_of ks vals k \<noteq> []"
proof -
  from assms(1) obtain i where i: "i < length ks" "ks ! i = k"
    by (auto simp: in_set_conv_nth)
  with assms(2) have "(k, vals ! i) \<in> set (zip ks vals)"
    by (auto simp: set_zip)
  then have "(k, vals ! i) \<in> set (filter (\<lambda>(k', v). k' = k) (zip ks vals))" by simp
  then show ?thesis unfolding group_of_def by (auto simp del: set_filter)
qed

lemma group_of_subset: "set (group_of ks vals k) \<subseteq> set vals"
  by (auto simp: group_of_def dest: set_zip_rightD)

lemma group_keys_subset: "set (group_keys ks) \<subseteq> set ks"
  by (auto simp: group_keys_def)

lemma labels_to_numbers:
  assumes "to_numbers labels = Inr vals" and "list_all (\<lambda>c. c = JNum 0 \<or> c = JNum 1) labels"
  shows "length vals = length labels" and "\<forall>v \<in> set vals. v = Some 0 \<or> v = Some 1"
proof -
  note a = to_numbers_all2 [OF assms(1)]
  then show "length vals = length labels" by (simp add: list_all2_lengthD)
  show "\<forall>v \<in> set vals. v = Some 0 \<or> v = Some 1"
  proof
    fix v assume "v \<in> set vals"
    then obtain i where i: "i < length vals" "vals ! i = v" by (auto simp: in_set_conv_nth)
    with a have "to_number (labels ! i) = Inr v" "i < length labels"
      by (auto simp: list_all2_conv_all_nth)
    moreover from this assms(2) have "labels ! i = JNum 0 \<or> labels ! i = JNum 1"
      by (simp add: list_all_length)
    ultimately show "v = Some 0 \<or> v = Some 1"
      by (auto simp: to_number_def)
  qed
qed

lemma groupby_mean_rates:
  assumes g: "groupby_mean d by col = Inr rates"
    and ks: "getitem d by = Inr ks"
    and labels: "getitem d col = Inr labels"
    and len: "length ks = length labels"
    and l01: "list_all (\<lambda>c. c = JNum 0 \<or> c = JNum 1) labels"
  shows "fst ` set rates \<subseteq> set ks"
    and "\<forall>(k, v) \<in> set rates. \<exists>x. v = JNum x \<and> 0 \<le> x \<and> x \<le> 1"
proof -
  from g ks labels obtain vals where vals: "to_numbers labels = Inr vals"
    and rates: "rates = map (\<lambda>k. (k, mean_skipna (group_of ks vals k))) (group_keys ks)"
    by (auto simp: groupby_mean_def split: sum.splits)
  note v = labels_to_numbers [OF vals l01]
  show "fst ` set rates \<subseteq> set ks"
    using group_keys_subset [of ks] by (auto simp: rates)
  show "\<forall>(k, v) \<in> set rates. \<exists>x. v = JNum x \<and> 0 \<le> x \<and> x \<le> 1"
  proof (clarify)
    fix k r assume "(k, r) \<in> set rates"
    then have k: "k \<in> set ks" and r: "r = mean_skipna (group_of ks vals k)"
      using group_keys_subset [of ks] by (auto simp: rates)
    have "group_of ks vals k \<noteq> []"
      using k len v(1) by (intro group_of_nonempty) simp_all
    moreover have "\<forall>x \<in> set (group_of ks vals k). x = Some 0 \<or> x = Some 1"
      using v(2) group_of_subset [of ks vals k] by blast
    ultimately show "\<exists>x. r = JNum x \<and> 0 \<le> x \<and> x \<le> 1"
      unfolding r by (rule mean_skipna_unit_interval)
  qed
qed

subsection \<open>What \<^verbatim>\<open>dashboard\<close> reads and writes\<close>

text \<open>The answer depends on four columns of the frame only.\<close>

lemma dashboard_response_cong:
  assumes "map_of (columns (df s)) ''Contract'' = map_of (columns (df t)) ''Contract''"
    and "map_of (columns (df s)) ''Churn'' = map_of (columns (df t)) ''Churn''"
    and "map_of (columns (df s)) ''tenure'' = map_of (columns (df t)) ''tenure''"
    and "map_of (columns (df s)) ''MonthlyCharges'' = map_of (columns (df t)) ''MonthlyCharges''"
  shows "fst (dashboard fs s) = fst (dashboard fs t)"
proof -
  have e1: "groupby_mean (df s) ''Contract'' ''Churn'' = groupby_mean (df t) ''Contract'' ''Churn''"
    using assms by (intro groupby_mean_cong)
  have e2: "getitem (df s) ''tenure'' = getitem (df t) ''tenure''"
    using assms by (intro getitem_cong)
  have e3: "groupby_mean (setitem (df s) ''TenureBucket'' x) ''TenureBucket'' ''Churn'' =
            groupby_mean (setitem (df t) ''TenureBucket'' x) ''TenureBucket'' ''Churn''" for x
    using assms by (intro groupby_mean_cong) (simp_all add: columns_setitem)
  have e4: "getitem (setitem (df s) ''TenureBucket'' x) ''MonthlyCharges'' =
            getitem (setitem (df t) ''TenureBucket'' x) ''MonthlyCharges''" for x
    using assms by (intro getitem_cong) (simp add: columns_setitem)
  have e5: "groupby_mean (setitem (setitem (df s) ''TenureBucket'' x) ''MonthlyBucket'' y)
              ''MonthlyBucket'' ''Churn'' =
            groupby_mean (setitem (setitem (df t) ''TenureBucket'' x) ''MonthlyBucket'' y)
              ''MonthlyBucket'' ''Churn''" for x y
    using assms by (intro groupby_mean_cong) (simp_all add: columns_setitem)
  show ?thesis
    by (simp add: dashboard_def Let_def e1 e2 e3 e4 e5 split: sum.splits prod.splits)
qed

text \<open>The handler changes the two bucket columns and nothing else.\<close>

lemma dashboard_frame:
  "other_columns (df (snd (dashboard fs s))) = other_columns (df s) \<and>
   nrows (df (snd (dashboard fs s))) = nrows (df s) \<and>
   model (snd (dashboard fs s)) = model s"
  by (simp add: dashboard_def Let_def other_columns_setitem nrows_setitem
      split: sum.splits prod.splits)

lemma dashboard_keeps_column:
  assumes "k \<noteq> ''TenureBucket''" and "k \<noteq> ''MonthlyBucket''"
  shows "map_of (columns (df (snd (dashboard fs s)))) k = map_of (columns (df s)) k"
proof -
  have "map_of (other_columns (df (snd (dashboard fs s)))) k = map_of (other_columns (df s)) k"
    using dashboard_frame [of fs s] by simp
  with assms show ?thesis by (simp add: map_of_other_columns)
qed

text \<open>The steps behind an answer.\<close>

lemma dashboard_InrD:
  assumes "dashboard fs s = (Inr body, s')"
  obtains tenure_cells tenure_buckets monthly_cells monthly_buckets where
    "groupby_mean (df s) ''Contract'' ''Churn'' = Inr (contract body)"
    "getitem (df s) ''tenure'' = Inr tenure_cells"
    "apply_series tenure_bucket tenure_cells = Inr tenure_buckets"
    "groupby_mean (setitem (df s) ''TenureBucket'' tenure_buckets) ''TenureBucket'' ''Churn'' =
       Inr (tenure body)"
    "getitem (df s) ''MonthlyCharges'' = Inr monthly_cells"
    "apply_series monthly_bucket monthly_cells = Inr monthly_buckets"
    "groupby_mean (setitem (setitem (df s) ''TenureBucket'' tenure_buckets)
        ''MonthlyBucket'' monthly_buckets) ''MonthlyBucket'' ''Churn'' = Inr (monthly body)"
    "load_metrics fs = Inr (report_metrics body, active_model body)"
    "s' = s\<lparr>df := setitem (setitem (df s) ''TenureBucket'' tenure_buckets)
                    ''MonthlyBucket'' monthly_buckets\<rparr>"
  using assms
  by (auto simp: dashboard_def Let_def getitem_setitem split: sum.splits prod.splits)

subsection \<open>Evaluating the examples\<close>

lemmas frame_eval = strip_columns_def strip_def is_space_def getitem_def setitem_def
  setitem_list_def empty_frame_def to_dict_records_def Let_def

lemmas dashboard_eval = dashboard_def groupby_mean_def to_number_def mean_skipna_def
  group_keys_def group_of_def tenure_bucket_def monthly_bucket_def py_le_def
  load_metrics_def dict_get_def List.map_filter_simps

lemmas example_server_defs = example_server_def example_df_def example_model_def
  example_files_def example_shap_def

subsection \<open>\<^verbatim>\<open>/api/predict\<close>\<close>

text \<open>
  The handler answers with what the model returned for the one row: its label and the
  second of its class probabilities. What the two are and how they are related is decided
  by the classifier behind \<open>predict_labels\<close> and \<open>predict_proba\<close>, not by the handler.
\<close>

lemma predict_relays_model:
  assumes "predict_labels (model s) (DataFrame1 data) = Inr (label # labels)"
    and "predict_proba (model s) (DataFrame1 data) = Inr (row # rows)"
    and "2 \<le> length row"
  shows "predict (Inr data) s =
           ((200, JObj [(''prediction'', JNum (of_int label)),
                        (''probability'', JNum (row ! 1))]), s)"
  using assms by (simp add: predict_def Let_def)

subsection \<open>\<^verbatim>\<open>/api/batch-predict\<close>\<close>

text \<open>
  C4. When the uploaded file parses to an empty table (no column or no row), the handler
  answers with status 400 and the body \<^verbatim>\<open>{"error": "Uploaded CSV is empty"}\<close>: the body
  holds nothing else, so no prediction, and the globals are as before.
\<close>

theorem batch_predict_empty_upload:
  assumes "read_csv file = Inr parsed" and "empty_frame parsed"
  shows "batch_predict (Some file) s =
           ((400, JObj [(''error'', JStr ''Uploaded CSV is empty'')]), s)"
  using assms by (simp add: batch_predict_def empty_strip_columns)

theorem batch_predict_empty_upload_witness:
  "read_csv example_upload_header_only = Inr example_header_only \<and>
   empty_frame example_header_only \<and>
   batch_predict (Some example_upload_header_only) example_server =
     ((400, JObj [(''error'', JStr ''Uploaded CSV is empty'')]), example_server)"
proof -
  have h1: "read_csv example_upload_header_only = Inr example_header_only"
    by (simp add: example_upload_header_only_def)
  have h2: "empty_frame example_header_only"
    by (simp add: empty_frame_def example_header_only_def)
  from batch_predict_empty_upload [OF h1 h2, of example_server] h1 h2 show ?thesis by simp
qed

text \<open>
  C5. When the table is not empty and lines 191 to 196 succeed (both model calls return,
  with one label and one probability per row), an exception anywhere in the SHAP block
  does not fail the request: the answer has status 200, one record per row of the upload
  holding that row's prediction and probability, and the empty mapping under
  \<^verbatim>\<open>batch_feature_importance\<close>.
\<close>

theorem batch_predict_shap_failure:
  assumes "read_csv file = Inr parsed" and "\<not> empty_frame parsed"
    and "predict_labels (model s) (strip_columns parsed) = Inr preds"
    and "predict_proba (model s) (strip_columns parsed) = Inr proba"
    and "column1 proba = Inr probs"
    and "length preds = nrows parsed" and "length probs = nrows parsed"
    and "shap_batch (model s) (strip_columns parsed) = Inl err"
  shows "\<exists>records.
           batch_predict (Some file) s =
             ((200, JObj [(''predictions'', JArr records),
                          (''batch_feature_importance'', JObj [])]), s) \<and>
           length records = nrows parsed \<and>
           (\<forall>i < nrows parsed. \<exists>row.
               records ! i = JObj row \<and>
               map_of row ''prediction'' = Some (JNum (of_int (preds ! i))) \<and>
               map_of row ''probability'' = Some (JNum (probs ! i)))"
proof -
  let ?d = "strip_columns parsed"
  let ?r1 = "setitem ?d ''prediction'' (map (\<lambda>p. JNum (of_int p)) preds)"
  let ?results = "setitem ?r1 ''probability'' (map JNum probs)"
  have s1: "setitem_list ?d ''prediction'' (map (\<lambda>p. JNum (of_int p)) preds) = Inr ?r1"
    using assms(6) by (simp add: setitem_list_def nrows_strip_columns)
  have s2: "setitem_list ?r1 ''probability'' (map JNum probs) = Inr ?results"
    using assms(7) by (simp add: setitem_list_def nrows_strip_columns nrows_setitem)
  have resp: "batch_predict (Some file) s =
      ((200, JObj [(''predictions'', JArr (to_dict_records ?results)),
                   (''batch_feature_importance'', JObj [])]), s)"
    using assms(1-5,8) s1 s2 by (simp add: batch_predict_def empty_strip_columns Let_def)
  have n: "nrows ?results = nrows parsed"
    by (simp add: nrows_setitem nrows_strip_columns)
  have len: "length (to_dict_records ?results) = nrows parsed"
    by (simp add: to_dict_records_def n)
  have rows: "\<forall>i < nrows parsed. \<exists>row.
      to_dict_records ?results ! i = JObj row \<and>
      map_of row ''prediction'' = Some (JNum (of_int (preds ! i))) \<and>
      map_of row ''probability'' = Some (JNum (probs ! i))"
  proof (intro allI impI)
    fix i assume i: "i < nrows parsed"
    let ?row = "map (\<lambda>(label, cells). (label, cells ! i)) (columns ?results)"
    have "to_dict_records ?results ! i = JObj ?row"
      using i by (simp add: to_dict_records_def n del: upt_Suc)
    moreover have "map_of ?row ''prediction'' = Some (JNum (of_int (preds ! i)))"
      using i assms(6) by (simp add: record_field columns_setitem)
    moreover have "map_of ?row ''probability'' = Some (JNum (probs ! i))"
      using i assms(7) by (simp add: record_field columns_setitem)
    ultimately show "\<exists>row. to_dict_records ?results ! i = JObj row \<and>
      map_of row ''prediction'' = Some (JNum (of_int (preds ! i))) \<and>
      map_of row ''probability'' = Some (JNum (probs ! i))"
      by blast
  qed
  from resp len rows show ?thesis by blast
qed

theorem batch_predict_shap_failure_witness:
  "read_csv example_upload = Inr example_batch \<and>
   \<not> empty_frame example_batch \<and>
   predict_labels (model (example_server\<lparr>model := example_model_shap_fails\<rparr>))
     (strip_columns example_batch) = Inr [1, 1] \<and>
   predict_proba (model (example_server\<lparr>model := example_model_shap_fails\<rparr>))
     (strip_columns example_batch) = Inr [[0.25, 0.75], [0.25, 0.75]] \<and>
   column1 [[0.25, 0.75], [0.25, 0.75]] = Inr [0.75, 0.75] \<and>
   length [1, 1 :: int] = nrows example_batch \<and>
   length [0.75, 0.75 :: real] = nrows example_batch \<and>
   shap_batch (model (example_server\<lparr>model := example_model_shap_fails\<rparr>))
     (strip_columns example_batch) = Inl (Raised ''ExplainerError'' ''model type not supported'') \<and>
   (\<exists>records.
       batch_predict (Some example_upload) (example_server\<lparr>model := example_model_shap_fails\<rparr>) =
         ((200, JObj [(''predictions'', JArr records), (''batch_feature_importance'', JObj [])]),
          example_server\<lparr>model := example_model_shap_fails\<rparr>) \<and>
       length records = nrows example_batch \<and>
       (\<forall>i < nrows example_batch. \<exists>row.
           records ! i = JObj row \<and>
           map_of row ''prediction'' = Some (JNum (of_int ([1, 1] ! i))) \<and>
           map_of row ''probability'' = Some (JNum ([0.75, 0.75] ! i))))"
proof -
  let ?s = "example_server\<lparr>model := example_model_shap_fails\<rparr>"
  have h1: "read_csv example_upload = Inr example_batch"
    by (simp add: example_upload_def)
  have h2: "\<not> empty_frame example_batch"
    by (simp add: empty_frame_def example_batch_def)
  have h3: "predict_labels (model ?s) (strip_columns example_batch) = Inr [1, 1]"
    by (simp add: example_model_shap_fails_def example_model_def example_batch_def
        strip_columns_def numeral_2_eq_2)
  have h4: "predict_proba (model ?s) (strip_columns example_batch) = Inr [[0.25, 0.75], [0.25, 0.75]]"
    by (simp add: example_model_shap_fails_def example_model_def example_batch_def
        strip_columns_def numeral_2_eq_2)
  have h5: "column1 [[0.25, 0.75], [0.25, 0.75]] = Inr [0.75, 0.75]"
    by (simp add: column1_def)
  have h6: "length [1, 1 :: int] = nrows example_batch"
    by (simp add: example_batch_def)
  have h7: "length [0.75, 0.75 :: real] = nrows example_batch"
    by (simp add: example_batch_def)
  have h8: "shap_batch (model ?s) (strip_columns example_batch) =
      Inl (Raised ''ExplainerError'' ''model type not supported'')"
    by (simp add: shap_batch_def example_model_shap_fails_def example_model_def)
  from batch_predict_shap_failure [OF h1 h2 h3 h4 h5 h6 h7 h8] h1 h2 h3 h4 h5 h6 h7 h8
  show ?thesis by blast
qed

subsection \<open>\<^verbatim>\<open>/api/dashboard\<close>\<close>

text \<open>
  C6. For a data set whose labels after normalisation are all 0 or 1, every rate in the
  three mappings of a dashboard answer is a number between 0 and 1, the keys of the
  tenure mapping are among \<^verbatim>\<open>0-12\<close>, \<^verbatim>\<open>13-24\<close> and \<^verbatim>\<open>25+\<close>, and the keys of the monthly
  mapping are among \<^verbatim>\<open>0-50\<close>, \<^verbatim>\<open>51-100\<close> and \<^verbatim>\<open>101+\<close>.
\<close>

theorem dashboard_rates_bounded:
  assumes "dashboard fs s = (Inr body, s')"
    and "wf_frame (df s)"
    and "getitem (df s) ''Churn'' = Inr labels"
    and "list_all (\<lambda>c. c = JNum 0 \<or> c = JNum 1) labels"
  shows "(\<forall>(k, v) \<in> set (contract body) \<union> set (tenure body) \<union> set (monthly body).
            \<exists>x. v = JNum x \<and> 0 \<le> x \<and> x \<le> 1) \<and>
         fst ` set (tenure body) \<subseteq> {JStr ''0-12'', JStr ''13-24'', JStr ''25+''} \<and>
         fst ` set (monthly body) \<subseteq> {JStr ''0-50'', JStr ''51-100'', JStr ''101+''}"
proof -
  from assms(1) obtain tenure_cells tb monthly_cells mb where d:
    "groupby_mean (df s) ''Contract'' ''Churn'' = Inr (contract body)"
    "getitem (df s) ''tenure'' = Inr tenure_cells"
    "apply_series tenure_bucket tenure_cells = Inr tb"
    "groupby_mean (setitem (df s) ''TenureBucket'' tb) ''TenureBucket'' ''Churn'' = Inr (tenure body)"
    "getitem (df s) ''MonthlyCharges'' = Inr monthly_cells"
    "apply_series monthly_bucket monthly_cells = Inr mb"
    "groupby_mean (setitem (setitem (df s) ''TenureBucket'' tb) ''MonthlyBucket'' mb)
        ''MonthlyBucket'' ''Churn'' = Inr (monthly body)"
    by (rule dashboard_InrD)
  let ?d1 = "setitem (df s) ''TenureBucket'' tb"
  let ?d2 = "setitem ?d1 ''MonthlyBucket'' mb"
  have n: "length labels = nrows (df s)" using assms(2,3) by (rule wf_frame_getitem)
  obtain contract_cells where c: "getitem (df s) ''Contract'' = Inr contract_cells"
    using d(1) by (auto simp: groupby_mean_def split: sum.splits)
  have "length contract_cells = length labels"
    using wf_frame_getitem [OF assms(2) c] n by simp
  note r1 = groupby_mean_rates [OF d(1) c assms(3) this assms(4)]
  have len2: "length tb = length labels"
    using apply_series_length [OF d(3)] wf_frame_getitem [OF assms(2) d(2)] n by simp
  have k2: "getitem ?d1 ''TenureBucket'' = Inr tb" and l2: "getitem ?d1 ''Churn'' = Inr labels"
    using assms(3) by (simp_all add: getitem_setitem)
  note r2 = groupby_mean_rates [OF d(4) k2 l2 len2 assms(4)]
  have len3: "length mb = length labels"
    using apply_series_length [OF d(6)] wf_frame_getitem [OF assms(2) d(5)] n by simp
  have k3: "getitem ?d2 ''MonthlyBucket'' = Inr mb" and l3: "getitem ?d2 ''Churn'' = Inr labels"
    using assms(3) by (simp_all add: getitem_setitem)
  note r3 = groupby_mean_rates [OF d(7) k3 l3 len3 assms(4)]
  have tb: "set tb \<subseteq> {JStr ''0-12'', JStr ''13-24'', JStr ''25+''}"
    using d(3) tenure_bucket_range by (rule apply_series_range)
  have mb: "set mb \<subseteq> {JStr ''0-50'', JStr ''51-100'', JStr ''101+''}"
    using d(6) monthly_bucket_range by (rule apply_series_range)
  show ?thesis
  proof (intro conjI)
    show "\<forall>(k, v) \<in> set (contract body) \<union> set (tenure body) \<union> set (monthly body).
            \<exists>x. v = JNum x \<and> 0 \<le> x \<and> x \<le> 1"
      using r1(2) r2(2) r3(2) by (simp only: ball_Un)
    show "fst ` set (tenure body) \<subseteq> {JStr ''0-12'', JStr ''13-24'', JStr ''25+''}"
      using r2(1) tb by (rule subset_trans)
    show "fst ` set (monthly body) \<subseteq> {JStr ''0-50'', JStr ''51-100'', JStr ''101+''}"
      using r3(1) mb by (rule subset_trans)
  qed
qed

theorem dashboard_rates_bounded_witness:
  "dashboard example_files example_server =
     (Inr example_dashboard_body, example_server\<lparr>df := example_df_after\<rparr>) \<and>
   wf_frame (df example_server) \<and>
   getitem (df example_server) ''Churn'' = Inr [JNum 1, JNum 0, JNum 0, JNum 0] \<and>
   list_all (\<lambda>c. c = JNum 0 \<or> c = JNum 1) [JNum 1, JNum 0, JNum 0, JNum 0] \<and>
   list_all (\<lambda>(k, v). \<exists>x. v = JNum x \<and> 0 \<le> x \<and> x \<le> 1)
     (contract example_dashboard_body @ tenure example_dashboard_body @
      monthly example_dashboard_body) \<and>
   fst ` set (tenure example_dashboard_body) \<subseteq> {JStr ''0-12'', JStr ''13-24'', JStr ''25+''} \<and>
   fst ` set (monthly example_dashboard_body) \<subseteq> {JStr ''0-50'', JStr ''51-100'', JStr ''101+''}"
proof -
  have h1: "dashboard example_files example_server =
     (Inr example_dashboard_body, example_server\<lparr>df := example_df_after\<rparr>)"
    by (simp add: frame_eval dashboard_eval example_server_defs example_dashboard_body_def
      example_df_after_def example_report_def)
  have h2: "wf_frame (df example_server)"
    by (simp add: wf_frame_def example_server_def example_df_def)
  have h3: "getitem (df example_server) ''Churn'' = Inr [JNum 1, JNum 0, JNum 0, JNum 0]"
    by (simp add: getitem_def example_server_def example_df_def)
  have h4: "list_all (\<lambda>c. c = JNum 0 \<or> c = JNum 1) [JNum 1, JNum 0, JNum 0, JNum 0]"
    by simp
  note t = dashboard_rates_bounded [OF h1 h2 h3 h4]
  from t have "list_all (\<lambda>(k, v). \<exists>x. v = JNum x \<and> 0 \<le> x \<and> x \<le> 1)
     (contract example_dashboard_body @ tenure example_dashboard_body @
      monthly example_dashboard_body)"
    by (simp only: list_all_iff set_append Un_assoc) (rule conjunct1)
  with t h1 h2 h3 h4 show ?thesis by blast
qed

text \<open>
  C8. A second call of \<^verbatim>\<open>dashboard\<close>, and a second call of \<^verbatim>\<open>feature-importance\<close>,
  right after the first and with the same files, answers what the first call answered
  (also when that was an exception).
\<close>

theorem dashboard_and_feature_importance_idempotent:
  "fst (dashboard fs (snd (dashboard fs s))) = fst (dashboard fs s) \<and>
   fst (feature_importance fs (snd (feature_importance fs s))) = fst (feature_importance fs s)"
proof
  show "fst (dashboard fs (snd (dashboard fs s))) = fst (dashboard fs s)"
    by (rule dashboard_response_cong) (simp_all add: dashboard_keeps_column)
  have "snd (feature_importance fs s) = s"
    by (simp add: feature_importance_def Let_def split: option.splits sum.splits json.splits bool.splits)
  then show "fst (feature_importance fs (snd (feature_importance fs s))) = fst (feature_importance fs s)"
    by simp
qed

theorem dashboard_and_feature_importance_idempotent_witness:
  "fst (dashboard example_files (snd (dashboard example_files example_server))) =
     Inr example_dashboard_body \<and>
   fst (dashboard example_files example_server) = Inr example_dashboard_body \<and>
   fst (feature_importance example_files (snd (feature_importance example_files example_server))) =
     fst (feature_importance example_files example_server)"
proof -
  have "dashboard example_files example_server =
     (Inr example_dashboard_body, example_server\<lparr>df := example_df_after\<rparr>)"
    by (simp add: frame_eval dashboard_eval example_server_defs example_dashboard_body_def
      example_df_after_def example_report_def)
  then have "fst (dashboard example_files example_server) = Inr example_dashboard_body" by simp
  with dashboard_and_feature_importance_idempotent [of example_files example_server]
  show ?thesis by simp
qed

text \<open>The explain handler returns the globals it was given.\<close>

lemma explain_state: "snd (explain body s) = s"
  by (simp add: explain_def Let_def split: sum.splits list.splits)

text \<open>
  C9, as amended. On every request the dashboard handler changes no column of the shared
  frame other than \<^verbatim>\<open>TenureBucket\<close> and \<^verbatim>\<open>MonthlyBucket\<close> (the other columns keep their
  order and their cells, the frame its number of rows, and the model is untouched), and
  when it answers, the two columns hold the bucket labels of \<^verbatim>\<open>tenure\<close> and of
  \<^verbatim>\<open>MonthlyCharges\<close>. The explain handler leaves the shared frame as it is.
\<close>

theorem dashboard_changes_bucket_columns_only:
  "other_columns (df (snd (dashboard fs s))) = other_columns (df s) \<and>
   nrows (df (snd (dashboard fs s))) = nrows (df s) \<and>
   model (snd (dashboard fs s)) = model s \<and>
   (dashboard fs s = (Inr body, s') \<longrightarrow>
      (\<exists>tenure_cells tenure_buckets monthly_cells monthly_buckets.
          getitem (df s) ''tenure'' = Inr tenure_cells \<and>
          apply_series tenure_bucket tenure_cells = Inr tenure_buckets \<and>
          getitem (df s') ''TenureBucket'' = Inr tenure_buckets \<and>
          getitem (df s) ''MonthlyCharges'' = Inr monthly_cells \<and>
          apply_series monthly_bucket monthly_cells = Inr monthly_buckets \<and>
          getitem (df s') ''MonthlyBucket'' = Inr monthly_buckets)) \<and>
   snd (explain request_body s) = s"
proof (intro conjI impI)
  show "other_columns (df (snd (dashboard fs s))) = other_columns (df s)"
    "nrows (df (snd (dashboard fs s))) = nrows (df s)"
    "model (snd (dashboard fs s)) = model s"
    using dashboard_frame [of fs s] by simp_all
  show "snd (explain request_body s) = s" by (rule explain_state)
  assume "dashboard fs s = (Inr body, s')"
  then obtain tenure_cells tb monthly_cells mb where d:
    "getitem (df s) ''tenure'' = Inr tenure_cells"
    "apply_series tenure_bucket tenure_cells = Inr tb"
    "getitem (df s) ''MonthlyCharges'' = Inr monthly_cells"
    "apply_series monthly_bucket monthly_cells = Inr mb"
    "s' = s\<lparr>df := setitem (setitem (df s) ''TenureBucket'' tb) ''MonthlyBucket'' mb\<rparr>"
    by (rule dashboard_InrD)
  have "getitem (df s') ''TenureBucket'' = Inr tb" "getitem (df s') ''MonthlyBucket'' = Inr mb"
    by (simp_all add: d(5) getitem_setitem)
  with d(1-4)
  show "\<exists>tenure_cells tenure_buckets monthly_cells monthly_buckets.
          getitem (df s) ''tenure'' = Inr tenure_cells \<and>
          apply_series tenure_bucket tenure_cells = Inr tenure_buckets \<and>
          getitem (df s') ''TenureBucket'' = Inr tenure_buckets \<and>
          getitem (df s) ''MonthlyCharges'' = Inr monthly_cells \<and>
          apply_series monthly_bucket monthly_cells = Inr monthly_buckets \<and>
          getitem (df s') ''MonthlyBucket'' = Inr monthly_buckets"
    by blast
qed

theorem dashboard_changes_bucket_columns_only_witness:
  "dashboard example_files example_server =
     (Inr example_dashboard_body, example_server\<lparr>df := example_df_after\<rparr>) \<and>
   other_columns (df (snd (dashboard example_files example_server))) =
     other_columns (df example_server) \<and>
   nrows (df (snd (dashboard example_files example_server))) = nrows (df example_server) \<and>
   model (snd (dashboard example_files example_server)) = model example_server \<and>
   (\<exists>tenure_cells tenure_buckets monthly_cells monthly_buckets.
       getitem (df example_server) ''tenure'' = Inr tenure_cells \<and>
       apply_series tenure_bucket tenure_cells = Inr tenure_buckets \<and>
       getitem (df (example_server\<lparr>df := example_df_after\<rparr>)) ''TenureBucket'' = Inr tenure_buckets \<and>
       getitem (df example_server) ''MonthlyCharges'' = Inr monthly_cells \<and>
       apply_series monthly_bucket monthly_cells = Inr monthly_buckets \<and>
       getitem (df (example_server\<lparr>df := example_df_after\<rparr>)) ''MonthlyBucket'' = Inr monthly_buckets) \<and>
   snd (explain (Inr example_record) example_server) = example_server"
proof -
  have h: "dashboard example_files example_server =
     (Inr example_dashboard_body, example_server\<lparr>df := example_df_after\<rparr>)"
    by (simp add: frame_eval dashboard_eval example_server_defs example_dashboard_body_def
      example_df_after_def example_report_def)
  from dashboard_changes_bucket_columns_only [of example_files example_server
      example_dashboard_body "example_server\<lparr>df := example_df_after\<rparr>" "Inr example_record"] h
  show ?thesis by blast
qed

text \<open>
  C9 as stated fails for the explain handler: a request it answers with status 200 leaves
  the shared frame without either bucket column.
\<close>

theorem explain_adds_no_bucket_columns_counterexample:
  "fst (explain (Inr example_record) example_server) =
     (200, JObj [(''features'', JObj example_record),
                 (''shap_values'', JArr [JNum 0.1, JNum (- 0.2)]),
                 (''base_value'', JNum 0.4)]) \<and>
   map_of (columns (df (snd (explain (Inr example_record) example_server)))) ''TenureBucket'' = None \<and>
   map_of (columns (df (snd (explain (Inr example_record) example_server)))) ''MonthlyBucket'' = None"
  by (simp add: explain_def example_server_def example_model_def example_shap_def example_record_def
      example_df_def DataFrame1_def to_dict_records_def Let_def)

subsection \<open>\<^verbatim>\<open>/api/health\<close>\<close>

lemma health_cases:
  "(\<exists>current. fst (health fs s) =
       Inr (200, JObj [(''status'', JStr ''ok''), (''model_loaded'', JBool True),
                       (''active_model'', current)])) \<or>
   (\<exists>e. fst (health fs s) = Inl e \<and> load_metrics fs = Inl e)"
  by (auto simp: health_def split: sum.splits prod.splits)

lemma load_metrics_ok:
  "metrics_file fs = None \<or> (\<exists>d. metrics_file fs = Some (Inr (JObj d))) \<Longrightarrow>
   \<exists>r. load_metrics fs = Inr r"
  by (auto simp: load_metrics_def dict_get_def)

lemma startup_model:
  "startup fs = Inr s \<Longrightarrow> model_file fs = Some (Inr (model s))"
  by (auto simp: startup_def Let_def split: option.splits sum.splits)

text \<open>
  C10. In every state reachable after a successful start, a health answer has
  \<^verbatim>\<open>model_loaded\<close> equal to \<^verbatim>\<open>True\<close>, and the handler does answer (with status 200)
  whenever the metrics file is absent or holds a JSON object. The field does not depend on
  the model file: whatever happens to that file, the state stays reachable and the answer
  is the same; the handler changes nothing. The model file is looked at once, at start-up,
  which succeeds only if the file is there and loads.
\<close>

theorem health_reports_model_loaded:
  assumes "reachable fs s"
  shows "(metrics_file fs = None \<or> (\<exists>d. metrics_file fs = Some (Inr (JObj d))) \<longrightarrow>
            (\<exists>body. fst (health fs s) = Inr (200, body))) \<and>
         (\<forall>status body. fst (health fs s) = Inr (status, body) \<longrightarrow>
            (\<exists>d. body = JObj d \<and> map_of d ''model_loaded'' = Some (JBool True))) \<and>
         reachable (fs\<lparr>model_file := changed\<rparr>) s \<and>
         fst (health (fs\<lparr>model_file := changed\<rparr>) s) = fst (health fs s) \<and>
         snd (health fs s) = s \<and>
         (startup fs0 = Inr s0 \<longrightarrow> model_file fs0 = Some (Inr (model s0)))"
proof (intro conjI impI allI)
  assume "metrics_file fs = None \<or> (\<exists>d. metrics_file fs = Some (Inr (JObj d)))"
  then obtain r where "load_metrics fs = Inr r" using load_metrics_ok by blast
  then show "\<exists>body. fst (health fs s) = Inr (200, body)"
    by (cases r) (simp add: health_def)
next
  fix status body assume "fst (health fs s) = Inr (status, body)"
  with health_cases [of fs s]
  show "\<exists>d. body = JObj d \<and> map_of d ''model_loaded'' = Some (JBool True)"
    by auto
next
  from assms show "reachable (fs\<lparr>model_file := changed\<rparr>) s"
    by (rule reachable.files_changed)
next
  show "fst (health (fs\<lparr>model_file := changed\<rparr>) s) = fst (health fs s)"
    by (simp add: health_def load_metrics_def)
next
  show "snd (health fs s) = s"
    by (simp add: health_def split: sum.splits prod.splits)
next
  assume "startup fs0 = Inr s0"
  then show "model_file fs0 = Some (Inr (model s0))" by (rule startup_model)
qed

theorem health_reports_model_loaded_witness:
  "reachable example_files example_server \<and>
   metrics_file example_files = Some (Inr example_report) \<and>
   startup example_files = Inr example_server \<and>
   model_file example_files = Some (Inr (model example_server)) \<and>
   reachable (example_files\<lparr>model_file := None\<rparr>) example_server \<and>
   model_file (example_files\<lparr>model_file := None\<rparr>) = None \<and>
   fst (health (example_files\<lparr>model_file := None\<rparr>) example_server) =
     Inr (200, JObj [(''status'', JStr ''ok''), (''model_loaded'', JBool True),
                     (''active_model'', JStr ''Logistic Regression'')])"
proof -
  have h0: "startup example_files = Inr example_server"
    by (simp add: startup_def frame_eval churn_map_def example_files_def example_dataset_def
      example_server_def example_df_def)
  then have h: "reachable example_files example_server" by (rule reachable.started)
  have m: "metrics_file example_files = Some (Inr example_report)"
    by (simp add: example_files_def)
  have v: "fst (health example_files example_server) =
     Inr (200, JObj [(''status'', JStr ''ok''), (''model_loaded'', JBool True),
                     (''active_model'', JStr ''Logistic Regression'')])"
    by (simp add: health_def load_metrics_def dict_get_def example_files_def example_report_def)
  from health_reports_model_loaded [OF h, of None example_files example_server] h h0 m v
  show ?thesis by simp
qed

end
